theory Spec2Isabelle
  imports Complex_Main
begin

section \<open>External primitives\<close>

text \<open>
  The ledger engine (\<^verbatim>\<open>class Transaction\<close>, \<^verbatim>\<open>class Block\<close>,
  \<^verbatim>\<open>class Blockchain\<close>) calls two functions of the library \<^verbatim>\<open>crypto-js\<close>:
  \<^verbatim>\<open>crypto.SHA256(s).toString()\<close> and \<^verbatim>\<open>crypto.HmacSHA256(msg, key).toString()\<close>.
  Both are pure functions from strings to (hexadecimal) strings. They are not code of the
  repository, so every operation of the model takes them as a parameter; the theorems
  hold for every choice of the two functions.

  The other sources of outside input are \<^verbatim>\<open>Date.now()\<close>, \<^verbatim>\<open>uuidv4()\<close> and
  \<^verbatim>\<open>Math.random()\<close>. Each operation of the model takes the value that each such call
  returned as an explicit argument, in the order of the calls.
\<close>

record crypto =
  SHA256 :: "string \<Rightarrow> string"
  HmacSHA256 :: "string \<Rightarrow> string \<Rightarrow> string"

subsection \<open>Numbers and JSON text\<close>

text \<open>
  Amounts, rewards and timestamps are JavaScript numbers that hold integers; they are
  modelled as \<^typ>\<open>int\<close>. String concatenation with a number and
  \<^verbatim>\<open>JSON.stringify\<close> of a number both print the decimal digits (for an integer
  below \<open>10\<^sup>2\<^sup>1\<close> in magnitude, as all numbers here are); \<open>show_digits\<close> prints those
  of a number that is not negative.
\<close>

function show_digits :: "int \<Rightarrow> string" where
  "show_digits i =
     (if i < 10 then [char_of (48 + i)]
      else show_digits (i div 10) @ [char_of (48 + i mod 10)])"
  by pat_completeness auto
termination
  by (relation "measure nat") auto

declare show_digits.simps [simp del]

definition show_int :: "int \<Rightarrow> string" where
  "show_int i = (if i < 0 then CHR ''-'' # show_digits (- i) else show_digits i)"

definition show_nat :: "nat \<Rightarrow> string" where
  "show_nat n = show_digits (int n)"

definition hex_digit :: "nat \<Rightarrow> char" where
  "hex_digit n = (if n < 10 then char_of (48 + n) else char_of (87 + n))"

text \<open>
  \<^verbatim>\<open>JSON.stringify\<close> of a string: the double quote (0x22) and the backslash (0x5C) are
  escaped with a backslash, the control characters below 0x20 are written with their
  short escape or as \<^verbatim>\<open>\u00XX\<close>, every other character stands for itself.
\<close>

definition json_escape :: "char \<Rightarrow> string" where
  "json_escape c =
     (if c = CHR 0x22 then [CHR 0x5C, CHR 0x22]
      else if c = CHR 0x5C then [CHR 0x5C, CHR 0x5C]
      else if c = CHR 0x08 then [CHR 0x5C, CHR ''b'']
      else if c = CHR 0x09 then [CHR 0x5C, CHR ''t'']
      else if c = CHR 0x0A then [CHR 0x5C, CHR ''n'']
      else if c = CHR 0x0C then [CHR 0x5C, CHR ''f'']
      else if c = CHR 0x0D then [CHR 0x5C, CHR ''r'']
      else if (of_char c :: nat) < 32
        then [CHR 0x5C, CHR ''u'', CHR ''0'', CHR ''0'',
              hex_digit (of_char c div 16), hex_digit (of_char c mod 16)]
      else [c])"

definition json_string :: "string \<Rightarrow> string" where
  "json_string s = CHR 0x22 # concat (map json_escape s) @ [CHR 0x22]"

definition json_nullable :: "string option \<Rightarrow> string" where
  "json_nullable v = (case v of None \<Rightarrow> ''null'' | Some s \<Rightarrow> json_string s)"

definition json_key :: "string \<Rightarrow> string" where
  "json_key k = json_string k @ '':''"

fun join_with :: "string \<Rightarrow> string list \<Rightarrow> string" where
  "join_with sep [] = []"
| "join_with sep [x] = x"
| "join_with sep (x # y # ys) = x @ sep @ join_with sep (y # ys)"

definition json_array :: "string list \<Rightarrow> string" where
  "json_array xs = ''['' @ join_with '','' xs @ '']''"

section \<open>Errors\<close>

text \<open>
  Every \<^verbatim>\<open>throw new Error(msg)\<close> and every \<^verbatim>\<open>{ success: false, error: msg }\<close>
  of the source is a value of this type, named after the error kind and carrying what
  the source's message varies in:
  \<^item> \<open>MissingAddress\<close>: 'Transaction must include from and to address';
  \<^item> \<open>UnknownAccount\<close>: 'Invalid account address';
  \<^item> \<open>InsufficientBalance\<close>: 'Not enough balance';
  \<^item> \<open>MissingSignature\<close>: 'No signature in this transaction';
  \<^item> \<open>InvalidMinerAddress\<close>: 'Invalid miner address';
  \<^item> \<open>FaucetIneligible reason\<close>: the reason of \<^verbatim>\<open>canUseFaucet\<close>;
  \<^item> \<open>FaucetEmpty\<close>: 'Faucet is empty, please contact administrator';
  \<^item> \<open>DuplicateAccount\<close>: 'Account already exists';
  \<^item> \<open>AlreadyRunning\<close>: 'Auto mining is already running';
  \<^item> \<open>NotRunning\<close>: 'Auto mining is not running';
  \<^item> \<open>AlreadyMiner\<close>: 'Address is already a miner';
  \<^item> \<open>NotMiner\<close>: 'Address is not a miner';
  \<^item> \<open>AddressNotFound\<close>: 'Address not found';
  \<^item> \<open>TypeError\<close>: a property read on \<^verbatim>\<open>undefined\<close> (the latest block of an
    empty chain).
  An operation that can fail returns its result together with the ledger as the call
  left it, so that what a failed call changed is part of the model.
\<close>

datatype error =
    MissingAddress
  | UnknownAccount
  | InsufficientBalance
  | MissingSignature
  | InvalidMinerAddress
  | FaucetIneligible string
  | FaucetEmpty
  | DuplicateAccount
  | AlreadyRunning
  | NotRunning
  | AlreadyMiner
  | NotMiner
  | AddressNotFound
  | TypeError

section \<open>Transaction\<close>

text \<open>
  \<^verbatim>\<open>class Transaction\<close>. The fields \<^verbatim>\<open>id\<close>, \<^verbatim>\<open>from\<close>, \<^verbatim>\<open>to\<close>, \<^verbatim>\<open>type\<close> and
  \<^verbatim>\<open>timestamp\<close> carry the prefix \<open>tx_\<close>. \<open>None\<close> is JavaScript's \<^verbatim>\<open>null\<close>.
\<close>

record transaction =
  tx_id :: string
  tx_from :: "string option"
  tx_to :: "string option"
  amount :: int
  tx_type :: string
  tx_timestamp :: int
  signature :: "string option"

text \<open>The constructor; \<open>uuid\<close> is what \<^verbatim>\<open>uuidv4()\<close> returned, \<open>now\<close> what \<^verbatim>\<open>Date.now()\<close> did.\<close>

definition new_Transaction ::
  "string \<Rightarrow> int \<Rightarrow> string option \<Rightarrow> string option \<Rightarrow> int \<Rightarrow> string \<Rightarrow> transaction" where
  "new_Transaction uuid now from_addr to_addr amt type =
     \<lparr>tx_id = uuid, tx_from = from_addr, tx_to = to_addr, amount = amt, tx_type = type,
      tx_timestamp = now, signature = None\<rparr>"

text \<open>
  \<^verbatim>\<open>this.from + this.to + this.amount + this.timestamp + this.type\<close>, evaluated from the
  left: \<^verbatim>\<open>null\<close> joined to a string prints as \<^verbatim>\<open>null\<close>, while
  \<^verbatim>\<open>null + null\<close> is the number 0, to which the two numbers that follow are added
  before the type is appended.
\<close>

definition fingerprint_input :: "transaction \<Rightarrow> string" where
  "fingerprint_input t =
     (case (tx_from t, tx_to t) of
        (None, None) \<Rightarrow> show_int (0 + amount t + tx_timestamp t) @ tx_type t
      | (None, Some b) \<Rightarrow> ''null'' @ b @ show_int (amount t) @ show_int (tx_timestamp t) @ tx_type t
      | (Some a, None) \<Rightarrow> a @ ''null'' @ show_int (amount t) @ show_int (tx_timestamp t) @ tx_type t
      | (Some a, Some b) \<Rightarrow> a @ b @ show_int (amount t) @ show_int (tx_timestamp t) @ tx_type t)"

definition Transaction_calculateHash :: "crypto \<Rightarrow> transaction \<Rightarrow> string" where
  "Transaction_calculateHash cr t = SHA256 cr (fingerprint_input t)"

definition signTransaction :: "crypto \<Rightarrow> string \<Rightarrow> transaction \<Rightarrow> transaction" where
  "signTransaction cr signingKey t =
     (let hashTx = Transaction_calculateHash cr t
      in t\<lparr>signature := Some (HmacSHA256 cr hashTx signingKey)\<rparr>)"

text \<open>
  \<^verbatim>\<open>isValid()\<close>: \<^verbatim>\<open>!this.signature\<close> holds for \<^verbatim>\<open>null\<close> and for the empty string.
\<close>

definition isValid :: "crypto \<Rightarrow> transaction \<Rightarrow> error + bool" where
  "isValid cr t =
     (case tx_from t of
        None \<Rightarrow> Inr True
      | Some sender \<Rightarrow>
          (if signature t = None \<or> signature t = Some [] then Inl MissingSignature
           else let hashTx = Transaction_calculateHash cr t;
                    expectedSignature = HmacSHA256 cr hashTx sender
                in Inr (signature t = Some expectedSignature)))"

text \<open>\<^verbatim>\<open>JSON.stringify\<close> of a transaction and of an array of transactions.\<close>

definition stringify_transaction :: "transaction \<Rightarrow> string" where
  "stringify_transaction t =
     ''{'' @ json_key ''id'' @ json_string (tx_id t)
     @ '','' @ json_key ''from'' @ json_nullable (tx_from t)
     @ '','' @ json_key ''to'' @ json_nullable (tx_to t)
     @ '','' @ json_key ''amount'' @ show_int (amount t)
     @ '','' @ json_key ''type'' @ json_string (tx_type t)
     @ '','' @ json_key ''timestamp'' @ show_int (tx_timestamp t)
     @ '','' @ json_key ''signature'' @ json_nullable (signature t)
     @ ''}''"

definition stringify_transactions :: "transaction list \<Rightarrow> string" where
  "stringify_transactions ts = json_array (map stringify_transaction ts)"

section \<open>Block\<close>

text \<open>
  \<^verbatim>\<open>class Block\<close>. \<open>miningTime\<close> is the property that
  \<^verbatim>\<open>minePendingTransactions\<close> attaches after mining (\<open>None\<close>: the block has no such
  property). The property \<^verbatim>\<open>hashRate\<close>, attached at the same place, is a
  floating-point quotient that no operation of the ledger reads; it is left out.
\<close>

record block =
  timestamp :: int
  transactions :: "transaction list"
  previousHash :: string
  hash :: string
  nonce :: nat
  miner :: "string option"
  reward :: int
  miningTime :: "int option"

text \<open>
  The text that \<^verbatim>\<open>calculateHash()\<close> digests, given how the nonce and the miner print.
\<close>

definition hash_input :: "string \<Rightarrow> int \<Rightarrow> transaction list \<Rightarrow> string \<Rightarrow> string \<Rightarrow> string" where
  "hash_input prev ts txs nonce_text miner_text =
     prev @ show_int ts @ stringify_transactions txs @ nonce_text @ miner_text"

text \<open>\<^verbatim>\<open>(this.miner || '')\<close>: \<^verbatim>\<open>null\<close> and the empty string both give the empty string.\<close>

definition miner_or_empty :: "string option \<Rightarrow> string" where
  "miner_or_empty m = (case m of None \<Rightarrow> [] | Some a \<Rightarrow> a)"

definition Block_calculateHash :: "crypto \<Rightarrow> block \<Rightarrow> string" where
  "Block_calculateHash cr b =
     SHA256 cr (hash_input (previousHash b) (timestamp b) (transactions b)
                  (show_nat (nonce b)) (miner_or_empty (miner b)))"

text \<open>
  The constructor calls \<^verbatim>\<open>this.calculateHash()\<close> before it assigns \<^verbatim>\<open>this.nonce\<close>
  and \<^verbatim>\<open>this.miner\<close>: both are still \<^verbatim>\<open>undefined\<close>, so the nonce prints as
  \<^verbatim>\<open>undefined\<close> and the miner as the empty string.
\<close>

definition new_Block :: "crypto \<Rightarrow> int \<Rightarrow> transaction list \<Rightarrow> string \<Rightarrow> block" where
  "new_Block cr ts txs prev =
     \<lparr>timestamp = ts, transactions = txs, previousHash = prev,
      hash = SHA256 cr (hash_input prev ts txs ''undefined'' []),
      nonce = 0, miner = None, reward = 0, miningTime = None\<rparr>"

text \<open>
  The \<^verbatim>\<open>while\<close> loop of \<^verbatim>\<open>mineBlock\<close>. It has no bound: where no nonce is found the
  loop does not return, which is the value \<open>None\<close>.
  \<^verbatim>\<open>Array(difficulty + 1).join("0")\<close> is \<open>difficulty\<close> zeros and
  \<^verbatim>\<open>this.hash.substring(0, difficulty)\<close> the first \<open>difficulty\<close> characters of the hash
  (all of it when it is shorter).
\<close>

definition target :: "nat \<Rightarrow> string" where
  "target difficulty = replicate difficulty CHR ''0''"

definition next_nonce :: "crypto \<Rightarrow> block \<Rightarrow> block" where
  "next_nonce cr b =
     (let b1 = b\<lparr>nonce := nonce b + 1\<rparr> in b1\<lparr>hash := Block_calculateHash cr b1\<rparr>)"

partial_function (option) mine_loop :: "crypto \<Rightarrow> nat \<Rightarrow> block \<Rightarrow> block option" where
  "mine_loop cr difficulty b =
     (if take difficulty (hash b) \<noteq> target difficulty
      then mine_loop cr difficulty (next_nonce cr b)
      else Some b)"

definition mineBlock :: "crypto \<Rightarrow> nat \<Rightarrow> string \<Rightarrow> block \<Rightarrow> block option" where
  "mineBlock cr difficulty minerAddress b =
     (case mine_loop cr difficulty b of
        None \<Rightarrow> None
      | Some b1 \<Rightarrow> Some (b1\<lparr>miner := Some minerAddress, reward := 10\<rparr>))"

fun hasValidTransactions_list :: "crypto \<Rightarrow> transaction list \<Rightarrow> error + bool" where
  "hasValidTransactions_list cr [] = Inr True"
| "hasValidTransactions_list cr (tx # rest) =
     (case isValid cr tx of
        Inl e \<Rightarrow> Inl e
      | Inr ok \<Rightarrow> if \<not> ok then Inr False else hasValidTransactions_list cr rest)"

definition hasValidTransactions :: "crypto \<Rightarrow> block \<Rightarrow> error + bool" where
  "hasValidTransactions cr b = hasValidTransactions_list cr (transactions b)"

text \<open>
  \<^verbatim>\<open>JSON.stringify\<close> of a block: its properties in the order of their assignment. A
  block with a \<^verbatim>\<open>miningTime\<close> also carries \<^verbatim>\<open>hashRate\<close>, which the model leaves
  out; the only use of this text is the comparison with a newly built genesis block,
  which has neither property, and the text of a block with a \<^verbatim>\<open>miningTime\<close> differs
  from that with or without the \<^verbatim>\<open>hashRate\<close>.
\<close>

definition stringify_block :: "block \<Rightarrow> string" where
  "stringify_block b =
     ''{'' @ json_key ''timestamp'' @ show_int (timestamp b)
     @ '','' @ json_key ''transactions'' @ stringify_transactions (transactions b)
     @ '','' @ json_key ''previousHash'' @ json_string (previousHash b)
     @ '','' @ json_key ''hash'' @ json_string (hash b)
     @ '','' @ json_key ''nonce'' @ show_nat (nonce b)
     @ '','' @ json_key ''miner'' @ json_nullable (miner b)
     @ '','' @ json_key ''reward'' @ show_int (reward b)
     @ (case miningTime b of
          None \<Rightarrow> []
        | Some t \<Rightarrow> '','' @ json_key ''miningTime'' @ show_int t)
     @ ''}''"

section \<open>Ledger\<close>

text \<open>
  \<^verbatim>\<open>class Blockchain\<close>. An account is an entry of the \<^verbatim>\<open>Map\<close> \<^verbatim>\<open>accounts\<close>, which
  \<^verbatim>\<open>createAccount\<close> alone writes, always under the key that is the entry's own
  \<^verbatim>\<open>address\<close>; the map is modelled as the list of its entries in insertion order (the
  order in which \<^verbatim>\<open>findAccount\<close> walks them), and \<^verbatim>\<open>accounts.has(a)\<close> as the
  presence of an entry whose address is \<open>a\<close>. The entry's properties \<^verbatim>\<open>balance: 0\<close> and
  \<^verbatim>\<open>transactions: []\<close> are never written again nor read by the ledger; they are
  left out. The property \<^verbatim>\<open>alias\<close> is the field \<open>acc_alias\<close>.
\<close>

record account =
  address :: string
  acc_alias :: "string option"
  createdAt :: int

text \<open>A registered miner of the scheduler (the second, effective \<^verbatim>\<open>addMiner\<close>).\<close>

record miner_entry =
  miner_address :: string
  miner_alias :: "string option"
  hashPower :: rat
  isActive :: bool
  joinedAt :: int
  blocksMined :: nat
  totalRewards :: int

text \<open>
  The fields of the ledger that some method assigns. \<open>faucetHistory\<close> is the \<^verbatim>\<open>Map\<close> from
  address to the time of the last claim, as an association list. \<open>miningInterval\<close> is the
  timer of \<^verbatim>\<open>setInterval\<close>: \<open>Some period\<close> while one is set. \<open>autoMineInterval\<close> is
  \<^verbatim>\<open>undefined\<close> (\<open>None\<close>) until \<^verbatim>\<open>startAutoMining\<close> assigns it. \<open>totalBlocksMined\<close>
  and \<open>totalRewardsPaid\<close> are the two counters of \<^verbatim>\<open>miningStats\<close> that are updated.
\<close>

record blockchain =
  chain :: "block list"
  difficulty :: nat
  pendingTransactions :: "transaction list"
  accounts :: "account list"
  faucetHistory :: "(string \<times> int) list"
  autoMining :: bool
  miners :: "miner_entry list"
  miningInterval :: "int option"
  autoMineInterval :: "int option"
  minTransactionsToMine :: int
  maxBlockTime :: int
  lastBlockTime :: int
  totalBlocksMined :: nat
  totalRewardsPaid :: int

text \<open>
  The fields that the constructor sets and no method ever assigns are constants.
\<close>

definition miningReward :: int where "miningReward = 10"
definition targetBlockTime :: int where "targetBlockTime = 10000"
definition difficultyAdjustmentInterval :: nat where "difficultyAdjustmentInterval = 5"
definition faucetAmount :: int where "faucetAmount = 100"
definition faucetCooldown :: int where "faucetCooldown = 24 * 60 * 60 * 1000"
definition faucetAddress :: string where "faucetAddress = ''genesis''"

text \<open>
  \<^verbatim>\<open>createGenesisBlock()\<close>: \<^verbatim>\<open>Date.parse("2024-01-01")\<close> is 1704067200000. The
  genesis transaction is built by the \<^verbatim>\<open>Transaction\<close> constructor, which draws a
  fresh \<^verbatim>\<open>uuidv4()\<close> and reads the clock.
\<close>

definition createGenesisBlock :: "crypto \<Rightarrow> string \<Rightarrow> int \<Rightarrow> block" where
  "createGenesisBlock cr uuid now =
     (let genesisTransaction = new_Transaction uuid now None (Some ''genesis'') 1000000 ''genesis''
      in new_Block cr 1704067200000 [genesisTransaction] ''0'')"

text \<open>
  The constructor: \<open>uuid\<close> and \<open>now\<close> go to the genesis transaction, \<open>now'\<close> is the
  later reading of the clock stored in \<^verbatim>\<open>lastBlockTime\<close>.
\<close>

definition new_Blockchain :: "crypto \<Rightarrow> string \<Rightarrow> int \<Rightarrow> int \<Rightarrow> blockchain" where
  "new_Blockchain cr uuid now now' =
     \<lparr>chain = [createGenesisBlock cr uuid now], difficulty = 2, pendingTransactions = [],
      accounts = [], faucetHistory = [], autoMining = False, miners = [],
      miningInterval = None, autoMineInterval = None, minTransactionsToMine = 1,
      maxBlockTime = 30000, lastBlockTime = now', totalBlocksMined = 0,
      totalRewardsPaid = 0\<rparr>"

definition getLatestBlock :: "blockchain \<Rightarrow> block option" where
  "getLatestBlock bc = (if chain bc = [] then None else Some (last (chain bc)))"

subsection \<open>Account directory\<close>

text \<open>
  \<^verbatim>\<open>generateAddress(alias)\<close>: \<open>now\<close> is the clock, \<open>rnd\<close> the text
  \<^verbatim>\<open>Math.random().toString(36).substring(2)\<close>. \<^verbatim>\<open>alias || 'account'\<close> replaces
  \<^verbatim>\<open>null\<close> and the empty string.
\<close>

definition generateAddress :: "crypto \<Rightarrow> int \<Rightarrow> string \<Rightarrow> string option \<Rightarrow> string" where
  "generateAddress cr now rnd al =
     (let name = (case al of None \<Rightarrow> ''account'' | Some a \<Rightarrow> if a = [] then ''account'' else a);
          input = name @ ''_'' @ show_int now @ ''_'' @ rnd;
          h = SHA256 cr input
      in ''0x'' @ take 40 h)"

definition accounts_has :: "blockchain \<Rightarrow> string \<Rightarrow> bool" where
  "accounts_has bc a = list_ex (\<lambda>acc. address acc = a) (accounts bc)"

text \<open>
  \<^verbatim>\<open>createAccount(aliasOrAddress, isAlias)\<close>: \<open>now\<close> and \<open>rnd\<close> feed
  \<^verbatim>\<open>generateAddress\<close> (they are not read when \<open>isAlias\<close> is false), \<open>now'\<close> is the
  clock read for \<^verbatim>\<open>createdAt\<close>. The result is the pair of the address and the alias.
\<close>

definition createAccount ::
  "crypto \<Rightarrow> int \<Rightarrow> string \<Rightarrow> int \<Rightarrow> string \<Rightarrow> bool \<Rightarrow> blockchain
   \<Rightarrow> (error + string \<times> string option) \<times> blockchain" where
  "createAccount cr now rnd now' aliasOrAddress isAlias bc =
     (let al = (if isAlias then Some aliasOrAddress else None);
          addr = (if isAlias then generateAddress cr now rnd al else aliasOrAddress)
      in if \<not> accounts_has bc addr
         then (Inr (addr, al),
               bc\<lparr>accounts := accounts bc @ [\<lparr>address = addr, acc_alias = al, createdAt = now'\<rparr>]\<rparr>)
         else (Inl DuplicateAccount, bc))"

definition findAccount :: "blockchain \<Rightarrow> string \<Rightarrow> account option" where
  "findAccount bc aliasOrAddress =
     (case find (\<lambda>acc. address acc = aliasOrAddress) (accounts bc) of
        Some acc \<Rightarrow> Some acc
      | None \<Rightarrow> find (\<lambda>acc. acc_alias acc = Some aliasOrAddress) (accounts bc))"

definition resolveAddress :: "blockchain \<Rightarrow> string \<Rightarrow> string" where
  "resolveAddress bc aliasOrAddress =
     (case findAccount bc aliasOrAddress of
        Some acc \<Rightarrow> address acc
      | None \<Rightarrow> aliasOrAddress)"

subsection \<open>Balance derivation\<close>

definition balance_after_transaction :: "string \<Rightarrow> transaction \<Rightarrow> int \<Rightarrow> int" where
  "balance_after_transaction a tx balance =
     (let balance1 = (if tx_from tx = Some a then balance - amount tx else balance)
      in if tx_to tx = Some a then balance1 + amount tx else balance1)"

definition balance_after_block :: "string \<Rightarrow> block \<Rightarrow> int \<Rightarrow> int" where
  "balance_after_block a blk balance =
     (let balance1 = fold (balance_after_transaction a) (transactions blk) balance
      in if miner blk = Some a then balance1 + reward blk else balance1)"

definition getAccountBalance :: "blockchain \<Rightarrow> string \<Rightarrow> int" where
  "getAccountBalance bc aliasOrAddress =
     (let a = resolveAddress bc aliasOrAddress
      in if \<not> accounts_has bc a then 0
         else fold (balance_after_block a) (chain bc) 0)"

subsection \<open>Transaction submission\<close>

text \<open>\<^verbatim>\<open>!x\<close> for a string or \<^verbatim>\<open>null\<close>: true for \<^verbatim>\<open>null\<close> and the empty string.\<close>

definition absent :: "string option \<Rightarrow> bool" where
  "absent x = (x = None \<or> x = Some [])"

text \<open>
  \<^verbatim>\<open>createTransaction(transaction)\<close>. The value returned on success is the
  transaction as the call rewrote it (the caller's object is updated in place).
\<close>

definition createTransaction ::
  "crypto \<Rightarrow> transaction \<Rightarrow> blockchain \<Rightarrow> (error + transaction) \<times> blockchain" where
  "createTransaction cr tx bc =
     (if absent (tx_from tx) \<or> absent (tx_to tx) then (Inl MissingAddress, bc)
      else
        let fromAddress = resolveAddress bc (the (tx_from tx));
            toAddress = resolveAddress bc (the (tx_to tx))
        in if \<not> accounts_has bc fromAddress \<or> \<not> accounts_has bc toAddress
           then (Inl UnknownAccount, bc)
           else
             let balance = getAccountBalance bc (the (tx_from tx))
             in if balance < amount tx then (Inl InsufficientBalance, bc)
                else
                  let signed = signTransaction cr fromAddress
                                 (tx\<lparr>tx_from := Some fromAddress, tx_to := Some toAddress\<rparr>)
                  in (Inr signed,
                      bc\<lparr>pendingTransactions := pendingTransactions bc @ [signed]\<rparr>))"

subsection \<open>Difficulty retargeting\<close>

text \<open>
  \<^verbatim>\<open>!block.miningTime\<close> holds when the block has no such property and when it is 0.
\<close>

definition has_miningTime :: "block \<Rightarrow> bool" where
  "has_miningTime b = (case miningTime b of None \<Rightarrow> False | Some t \<Rightarrow> t \<noteq> 0)"

text \<open>
  The \<^verbatim>\<open>for\<close> loop of \<^verbatim>\<open>adjustDifficulty\<close> over the last
  \<open>difficultyAdjustmentInterval\<close> blocks: the pair of \<^verbatim>\<open>totalMiningTime\<close> and
  \<^verbatim>\<open>count\<close>.
\<close>

definition add_miningTime :: "block \<Rightarrow> int \<times> nat \<Rightarrow> int \<times> nat" where
  "add_miningTime b acc =
     (if has_miningTime b then (fst acc + the (miningTime b), snd acc + 1) else acc)"

definition window :: "blockchain \<Rightarrow> block list" where
  "window bc = drop (length (chain bc) - difficultyAdjustmentInterval) (chain bc)"

text \<open>
  \<^verbatim>\<open>adjustDifficulty()\<close>. The two quotients are taken in the rationals: the operands are
  integers far below \<open>2\<^sup>5\<^sup>3\<close>, where the comparison of the floating-point quotient with
  0.5 and 2.0 agrees with the exact one.
\<close>

definition adjustDifficulty :: "blockchain \<Rightarrow> blockchain" where
  "adjustDifficulty bc =
     (if length (chain bc) < difficultyAdjustmentInterval then bc
      else
        let lastBlock = last (chain bc);
            adjustmentBlock = chain bc ! (length (chain bc) - difficultyAdjustmentInterval)
        in if \<not> has_miningTime adjustmentBlock \<or> \<not> has_miningTime lastBlock then bc
           else
             let (totalMiningTime, count) = fold add_miningTime (window bc) (0, 0)
             in if count = 0 then bc
                else
                  let averageMiningTime = (of_int totalMiningTime :: rat) / of_nat count;
                      timeRatio = averageMiningTime / of_int targetBlockTime
                  in if timeRatio < 1 / 2 then bc\<lparr>difficulty := difficulty bc + 1\<rparr>
                     else if timeRatio > 2 then bc\<lparr>difficulty := max 1 (difficulty bc - 1)\<rparr>
                     else bc)"

subsection \<open>Mining the pending pool\<close>

text \<open>
  \<^verbatim>\<open>minePendingTransactions(miningRewardAddress)\<close>: \<open>now\<close> is the clock read for the
  block's timestamp, \<open>startTime\<close> and \<open>endTime\<close> the two readings around \<^verbatim>\<open>mineBlock\<close>.
  The result is \<open>None\<close> where the mining loop does not return.
\<close>

definition minePendingTransactions ::
  "crypto \<Rightarrow> int \<Rightarrow> int \<Rightarrow> int \<Rightarrow> string \<Rightarrow> blockchain
   \<Rightarrow> ((error + unit) \<times> blockchain) option" where
  "minePendingTransactions cr now startTime endTime miningRewardAddress bc =
     (let resolvedAddress = resolveAddress bc miningRewardAddress
      in if \<not> accounts_has bc resolvedAddress then Some (Inl InvalidMinerAddress, bc)
         else
           let bc1 = adjustDifficulty bc
           in case getLatestBlock bc1 of
                None \<Rightarrow> Some (Inl TypeError, bc1)
              | Some latest \<Rightarrow>
                  (case mineBlock cr (difficulty bc1) resolvedAddress
                          (new_Block cr now (pendingTransactions bc1) (hash latest)) of
                     None \<Rightarrow> None
                   | Some mined \<Rightarrow>
                       Some (Inr (),
                             bc1\<lparr>chain := chain bc1 @ [mined\<lparr>miningTime := Some (endTime - startTime)\<rparr>],
                                 pendingTransactions := []\<rparr>)))"

subsection \<open>Faucet\<close>

record faucet_check =
  canUse :: bool
  reason :: string
  remainingTime :: "int option"

text \<open>
  \<^verbatim>\<open>canUseFaucet(aliasOrAddress)\<close>; \<open>now\<close> is the clock, read only when the address has
  a recorded claim. \<^verbatim>\<open>!lastUsedTime\<close> holds when there is no entry and when the entry
  is 0.
\<close>

definition canUseFaucet :: "int \<Rightarrow> string \<Rightarrow> blockchain \<Rightarrow> faucet_check" where
  "canUseFaucet now aliasOrAddress bc =
     (let a = resolveAddress bc aliasOrAddress
      in if \<not> accounts_has bc a
         then \<lparr>canUse = False, reason = ''Account not found'', remainingTime = None\<rparr>
         else
           let lastUsedTime = map_of (faucetHistory bc) a
           in if lastUsedTime = None \<or> lastUsedTime = Some 0
              then \<lparr>canUse = True, reason = ''First time use'', remainingTime = None\<rparr>
              else
                let timeSinceLastUse = now - the lastUsedTime
                in if timeSinceLastUse \<ge> faucetCooldown
                   then \<lparr>canUse = True, reason = ''Cooldown expired'', remainingTime = None\<rparr>
                   else
                     let remaining = faucetCooldown - timeSinceLastUse;
                         hours = \<lceil>(of_int remaining :: rat) / of_int (60 * 60 * 1000)\<rceil>
                     in \<lparr>canUse = False,
                         reason = ''Please wait '' @ show_int hours
                                  @ '' hours before using faucet again'',
                         remainingTime = Some remaining\<rparr>)"

text \<open>\<^verbatim>\<open>Map.set\<close>: an existing key keeps its place, a new one goes last.\<close>

fun map_set :: "string \<Rightarrow> int \<Rightarrow> (string \<times> int) list \<Rightarrow> (string \<times> int) list" where
  "map_set k v [] = [(k, v)]"
| "map_set k v ((k', v') # rest) =
     (if k' = k then (k, v) # rest else (k', v') # map_set k v rest)"

record faucet_receipt =
  receipt_amount :: int
  transactionId :: string
  recipient :: string

text \<open>
  \<^verbatim>\<open>useFaucet(aliasOrAddress)\<close>: \<open>now\<close> is the clock read by \<^verbatim>\<open>canUseFaucet\<close>,
  \<open>uuid\<close> and \<open>now'\<close> go to the transaction, \<open>now''\<close> is the time recorded in the
  history.
\<close>

definition useFaucet ::
  "int \<Rightarrow> string \<Rightarrow> int \<Rightarrow> int \<Rightarrow> string \<Rightarrow> blockchain
   \<Rightarrow> (error + faucet_receipt) \<times> blockchain" where
  "useFaucet now uuid now' now'' aliasOrAddress bc =
     (let a = resolveAddress bc aliasOrAddress;
          canUseResult = canUseFaucet now aliasOrAddress bc
      in if \<not> canUse canUseResult then (Inl (FaucetIneligible (reason canUseResult)), bc)
         else
           let faucetBalance = getAccountBalance bc faucetAddress
           in if faucetBalance < faucetAmount then (Inl FaucetEmpty, bc)
              else
                let faucetTransaction =
                      new_Transaction uuid now' (Some faucetAddress) (Some a) faucetAmount ''faucet''
                in (Inr \<lparr>receipt_amount = faucetAmount, transactionId = tx_id faucetTransaction,
                         recipient = a\<rparr>,
                    bc\<lparr>faucetHistory := map_set a now'' (faucetHistory bc),
                       pendingTransactions := pendingTransactions bc @ [faucetTransaction]\<rparr>))"

subsection \<open>Chain validation\<close>

text \<open>
  The loop of \<^verbatim>\<open>isChainValid\<close> from index 1: \<open>previousBlock\<close> is the block before the
  first of \<open>rest\<close>.
\<close>

fun blocks_valid :: "crypto \<Rightarrow> block \<Rightarrow> block list \<Rightarrow> error + bool" where
  "blocks_valid cr previousBlock [] = Inr True"
| "blocks_valid cr previousBlock (currentBlock # rest) =
     (if hash previousBlock \<noteq> previousHash currentBlock then Inr False
      else case hasValidTransactions cr currentBlock of
             Inl e \<Rightarrow> Inl e
           | Inr ok \<Rightarrow>
               if \<not> ok then Inr False
               else if hash currentBlock \<noteq> Block_calculateHash cr currentBlock then Inr False
               else blocks_valid cr currentBlock rest)"

text \<open>
  \<^verbatim>\<open>isChainValid()\<close>: \<open>uuid\<close> and \<open>now\<close> are what the call of
  \<^verbatim>\<open>createGenesisBlock()\<close> inside it draws. \<^verbatim>\<open>JSON.stringify(this.chain[0])\<close> of an
  empty chain is \<^verbatim>\<open>undefined\<close>, which differs from every string.
\<close>

definition isChainValid :: "crypto \<Rightarrow> string \<Rightarrow> int \<Rightarrow> blockchain \<Rightarrow> error + bool" where
  "isChainValid cr uuid now bc =
     (let realGenesis = stringify_block (createGenesisBlock cr uuid now)
      in case chain bc of
           [] \<Rightarrow> Inr False
         | first # rest \<Rightarrow>
             if realGenesis \<noteq> stringify_block first then Inr False
             else blocks_valid cr first rest)"

subsection \<open>Mining scheduler\<close>

text \<open>
  The class defines \<^verbatim>\<open>startAutoMining\<close>, \<^verbatim>\<open>stopAutoMining\<close>, \<^verbatim>\<open>addMiner\<close>,
  \<^verbatim>\<open>removeMiner\<close> and \<^verbatim>\<open>startMiningCompetition\<close> twice; in a JavaScript class body
  the later definition of a method replaces the earlier one, so the model is of the
  later ones.

  \<^verbatim>\<open>config.x || d\<close>: the default replaces a property that is missing and one that is 0.
\<close>

record mining_config =
  cfg_autoMineInterval :: "int option"
  cfg_minTransactionsToMine :: "int option"
  cfg_maxBlockTime :: "int option"

definition or_default :: "int option \<Rightarrow> int \<Rightarrow> int" where
  "or_default v d = (case v of None \<Rightarrow> d | Some x \<Rightarrow> if x = 0 then d else x)"

record mining_started =
  started_autoMineInterval :: int
  started_minTransactionsToMine :: int
  started_maxBlockTime :: int
  started_totalMiners :: nat

definition startAutoMining ::
  "mining_config \<Rightarrow> blockchain \<Rightarrow> (error + mining_started) \<times> blockchain" where
  "startAutoMining config bc =
     (if autoMining bc then (Inl AlreadyRunning, bc)
      else
        let i = or_default (cfg_autoMineInterval config) 10000;
            n = or_default (cfg_minTransactionsToMine config) 1;
            m = or_default (cfg_maxBlockTime config) 30000
        in (Inr \<lparr>started_autoMineInterval = i, started_minTransactionsToMine = n,
                 started_maxBlockTime = m, started_totalMiners = length (miners bc)\<rparr>,
            bc\<lparr>autoMineInterval := Some i, minTransactionsToMine := n, maxBlockTime := m,
               autoMining := True, miningInterval := Some i\<rparr>))"

record mining_stats =
  stats_totalBlocksMined :: nat
  stats_totalRewardsPaid :: int

definition stopAutoMining :: "blockchain \<Rightarrow> (error + mining_stats) \<times> blockchain" where
  "stopAutoMining bc =
     (if \<not> autoMining bc then (Inl NotRunning, bc)
      else (Inr \<lparr>stats_totalBlocksMined = totalBlocksMined bc,
                  stats_totalRewardsPaid = totalRewardsPaid bc\<rparr>,
            bc\<lparr>autoMining := False, miningInterval := None\<rparr>))"

text \<open>
  \<^verbatim>\<open>addMiner(minerAddress, hashPower)\<close>; \<open>now\<close> is the clock read for \<^verbatim>\<open>joinedAt\<close>.
  \<^verbatim>\<open>!resolvedAddress\<close> holds for the empty string. The hash power is a decimal
  fraction, modelled as a rational.
\<close>

definition addMiner ::
  "int \<Rightarrow> string \<Rightarrow> rat \<Rightarrow> blockchain \<Rightarrow> (error + miner_entry) \<times> blockchain" where
  "addMiner now minerAddress hp bc =
     (let resolvedAddress = resolveAddress bc minerAddress
      in if resolvedAddress = [] then (Inl AddressNotFound, bc)
         else if list_ex (\<lambda>m. miner_address m = resolvedAddress) (miners bc)
         then (Inl AlreadyMiner, bc)
         else
           let al = (case find (\<lambda>acc. address acc = resolvedAddress) (accounts bc) of
                       None \<Rightarrow> None
                     | Some acc \<Rightarrow> if absent (acc_alias acc) then None else acc_alias acc);
               m = \<lparr>miner_address = resolvedAddress, miner_alias = al,
                    hashPower = max (1 / 10) (min 10 hp), isActive = True,
                    joinedAt = now, blocksMined = 0, totalRewards = 0\<rparr>
           in (Inr m, bc\<lparr>miners := miners bc @ [m]\<rparr>))"

fun remove_first :: "('a \<Rightarrow> bool) \<Rightarrow> 'a list \<Rightarrow> 'a list" where
  "remove_first P [] = []"
| "remove_first P (x # xs) = (if P x then xs else x # remove_first P xs)"

definition removeMiner :: "string \<Rightarrow> blockchain \<Rightarrow> (error + unit) \<times> blockchain" where
  "removeMiner minerAddress bc =
     (let resolvedAddress = resolveAddress bc minerAddress
      in if resolvedAddress = [] then (Inl AddressNotFound, bc)
         else if \<not> list_ex (\<lambda>m. miner_address m = resolvedAddress) (miners bc)
         then (Inl NotMiner, bc)
         else (Inr (),
               bc\<lparr>miners := remove_first (\<lambda>m. miner_address m = resolvedAddress) (miners bc)\<rparr>))"

text \<open>
  The weighted draw of \<^verbatim>\<open>startMiningCompetition\<close>: the index of the first miner at which
  the running sum of hash powers reaches \<open>random\<close>, if there is one.
\<close>

fun pick_winner :: "rat \<Rightarrow> rat \<Rightarrow> miner_entry list \<Rightarrow> nat option" where
  "pick_winner random currentWeight [] = None"
| "pick_winner random currentWeight (m # ms) =
     (if random \<le> currentWeight + hashPower m then Some 0
      else map_option Suc (pick_winner random (currentWeight + hashPower m) ms))"

text \<open>
  \<^verbatim>\<open>startMiningCompetition()\<close>: \<open>r\<close> is what \<^verbatim>\<open>Math.random()\<close> returned, the three
  times are those of \<^verbatim>\<open>minePendingTransactions\<close>. An error of
  \<^verbatim>\<open>minePendingTransactions\<close> leaves the method before the statistics are updated.
\<close>

definition startMiningCompetition ::
  "crypto \<Rightarrow> rat \<Rightarrow> int \<Rightarrow> int \<Rightarrow> int \<Rightarrow> blockchain \<Rightarrow> ((error + unit) \<times> blockchain) option" where
  "startMiningCompetition cr r now startTime endTime bc =
     (if miners bc = [] then Some (Inr (), bc)
      else if pendingTransactions bc = [] then Some (Inr (), bc)
      else
        let totalHashPower = sum_list (map hashPower (miners bc));
            random = r * totalHashPower
        in case pick_winner random 0 (miners bc) of
             None \<Rightarrow> Some (Inr (), bc)
           | Some i \<Rightarrow>
               (case minePendingTransactions cr now startTime endTime
                       (miner_address (miners bc ! i)) bc of
                  None \<Rightarrow> None
                | Some (Inl e, bc1) \<Rightarrow> Some (Inl e, bc1)
                | Some (Inr u, bc1) \<Rightarrow>
                    let w = miners bc1 ! i;
                        w1 = w\<lparr>blocksMined := blocksMined w + 1,
                               totalRewards := totalRewards w + miningReward\<rparr>
                    in Some (Inr (),
                             bc1\<lparr>miners := (miners bc1)[i := w1],
                                 totalBlocksMined := totalBlocksMined bc1 + 1,
                                 totalRewardsPaid := totalRewardsPaid bc1 + miningReward\<rparr>)))"

text \<open>
  \<^verbatim>\<open>checkAndStartMining()\<close>, the body of the periodic check: \<open>nowc\<close> is the clock it
  reads itself.
\<close>

definition checkAndStartMining ::
  "crypto \<Rightarrow> int \<Rightarrow> rat \<Rightarrow> int \<Rightarrow> int \<Rightarrow> int \<Rightarrow> blockchain
   \<Rightarrow> ((error + unit) \<times> blockchain) option" where
  "checkAndStartMining cr nowc r now startTime endTime bc =
     (if \<not> autoMining bc then Some (Inr (), bc)
      else case getLatestBlock bc of
             None \<Rightarrow> Some (Inl TypeError, bc)
           | Some lastBlock \<Rightarrow>
               let timeSinceLastBlock = nowc - timestamp lastBlock;
                   hasEnoughTransactions =
                     (int (length (pendingTransactions bc)) \<ge> minTransactionsToMine bc);
                   timeForced = (timeSinceLastBlock \<ge> maxBlockTime bc)
               in if hasEnoughTransactions \<or> timeForced
                  then startMiningCompetition cr r now startTime endTime bc
                  else Some (Inr (), bc))"

section \<open>Reachable ledgers\<close>

text \<open>
  The ledgers that the constructor and the operations produce, whatever the outcome of
  each call and whatever the clock, the identifiers and the random numbers were.
\<close>

inductive reachable :: "crypto \<Rightarrow> blockchain \<Rightarrow> bool" for cr :: crypto where
  r_new: "reachable cr (new_Blockchain cr uuid now now')"
| r_createAccount:
    "reachable cr bc \<Longrightarrow> reachable cr (snd (createAccount cr now rnd now' a isAlias bc))"
| r_createTransaction:
    "reachable cr bc \<Longrightarrow> reachable cr (snd (createTransaction cr tx bc))"
| r_useFaucet:
    "reachable cr bc \<Longrightarrow> reachable cr (snd (useFaucet now uuid now' now'' a bc))"
| r_minePendingTransactions:
    "reachable cr bc \<Longrightarrow> minePendingTransactions cr now startTime endTime a bc = Some res
     \<Longrightarrow> reachable cr (snd res)"
| r_startAutoMining:
    "reachable cr bc \<Longrightarrow> reachable cr (snd (startAutoMining config bc))"
| r_stopAutoMining:
    "reachable cr bc \<Longrightarrow> reachable cr (snd (stopAutoMining bc))"
| r_addMiner:
    "reachable cr bc \<Longrightarrow> reachable cr (snd (addMiner now a hp bc))"
| r_removeMiner:
    "reachable cr bc \<Longrightarrow> reachable cr (snd (removeMiner a bc))"
| r_startMiningCompetition:
    "reachable cr bc \<Longrightarrow> startMiningCompetition cr r now startTime endTime bc = Some res
     \<Longrightarrow> reachable cr (snd res)"
| r_checkAndStartMining:
    "reachable cr bc \<Longrightarrow> checkAndStartMining cr nowc r now startTime endTime bc = Some res
     \<Longrightarrow> reachable cr (snd res)"

text \<open>Hash linkage: every block but the first names the hash of the block before it.\<close>

definition hash_linked :: "block list \<Rightarrow> bool" where
  "hash_linked blocks =
     (\<forall>i \<in> {1 ..< length blocks}. previousHash (blocks ! i) = hash (blocks ! (i - 1)))"

section \<open>A small digest for running the model\<close>

text \<open>
  To run the model on concrete inputs a digest is needed. \<open>toy_crypto\<close> is a stand-in
  with the interface of the library: it sums the character codes of its input.
\<close>

definition toy_sum :: "string \<Rightarrow> int" where
  "toy_sum s = sum_list (map of_char s)"

definition toy_sha :: "string \<Rightarrow> string" where
  "toy_sha s = (if toy_sum s mod 3 = 0 then ''00'' else ''a0'') @ show_int (toy_sum s)"

definition toy_crypto :: crypto where
  "toy_crypto = \<lparr>SHA256 = toy_sha, HmacSHA256 = (\<lambda>msg key. toy_sha (key @ msg))\<rparr>"

declare mine_loop.simps [code]

section \<open>Auxiliary notions for the properties\<close>

text \<open>
  The character that a two-character escape \<^verbatim>\<open>\k\<close> of \<open>json_escape\<close> stands for.
\<close>

definition short_escaped :: "char \<Rightarrow> char" where
  "short_escaped k =
     (if k = CHR ''b'' then CHR 0x08 else if k = CHR ''t'' then CHR 0x09
      else if k = CHR ''n'' then CHR 0x0A else if k = CHR ''f'' then CHR 0x0C
      else if k = CHR ''r'' then CHR 0x0D else k)"

text \<open>
  What the loop of \<^verbatim>\<open>mineBlock\<close> establishes between the block it starts from and
  the block it ends with: only the nonce and the hash change, the hash meets the target,
  and it is the digest of the fields as they were when the loop last computed it (or the
  loop did not run).
\<close>

definition mined_from :: "crypto \<Rightarrow> nat \<Rightarrow> block \<Rightarrow> block \<Rightarrow> bool" where
  "mined_from cr d b b' \<longleftrightarrow>
     take d (hash b') = target d \<and> transactions b' = transactions b \<and>
     previousHash b' = previousHash b \<and> timestamp b' = timestamp b \<and>
     miner b' = miner b \<and> reward b' = reward b \<and> miningTime b' = miningTime b \<and>
     (b' = b \<or> hash b' = Block_calculateHash cr b')"

text \<open>
  The recorded mining durations of the blocks of the retarget window, in the words of the
  specification: blocks without a recorded duration are skipped. \<open>mean_time\<close> is their
  mean.
\<close>

definition recorded_times :: "blockchain \<Rightarrow> int list" where
  "recorded_times bc = map (\<lambda>b. the (miningTime b)) (filter has_miningTime (window bc))"

definition mean_time :: "blockchain \<Rightarrow> rat" where
  "mean_time bc = of_int (sum_list (recorded_times bc)) / of_nat (length (recorded_times bc))"

section \<open>Concrete ledgers\<close>

text \<open>A transfer of 5 from one address to another, not yet signed.\<close>

definition tx_alice :: transaction where
  "tx_alice =
     new_Transaction ''id-7'' 1700000000000 (Some ''0xa11ce'') (Some ''0xb0b'') 5 ''transfer''"

text \<open>An empty block on the genesis hash, and what mining it at difficulty 2 gives.\<close>

definition block0 :: block where
  "block0 = new_Block toy_crypto 1700000000000 [] ''0''"

definition mined0 :: block where
  "mined0 =
     \<lparr>timestamp = 1700000000000, transactions = [], previousHash = ''0'', hash = ''00915'',
      nonce = 3, miner = Some ''0xm'', reward = 10, miningTime = None\<rparr>"

text \<open>A ledger as the constructor leaves it.\<close>

definition ledger0 :: blockchain where
  "ledger0 = new_Blockchain toy_crypto ''id-1'' 1700000000000 1700000000001"

text \<open>The same after \<^verbatim>\<open>createAccount('alice', true)\<close>.\<close>

definition ledger_alice :: blockchain where
  "ledger_alice =
     snd (createAccount toy_crypto 1700000000100 ''k3x9'' 1700000000101 ''alice'' True ledger0)"

text \<open>
  The constructor's ledger after \<^verbatim>\<open>createAccount('genesis', false)\<close>, as the server
  does at start-up, and then \<^verbatim>\<open>createAccount('alice', true)\<close>.
\<close>

definition ledger_reserve :: blockchain where
  "ledger_reserve =
     snd (createAccount toy_crypto 1700000000100 ''k3x9'' 1700000000101 ''alice'' True
       (snd (createAccount toy_crypto 0 [] 1700000000050 ''genesis'' False ledger0)))"

text \<open>
  For any digest: the constructor's ledger after \<^verbatim>\<open>createAccount('genesis', false)\<close>
  and \<^verbatim>\<open>createAccount('bob', false)\<close>, two transfers of 600000 from \<^verbatim>\<open>genesis\<close> to
  \<^verbatim>\<open>bob\<close>, and the ledger after the first and after both are submitted.
\<close>

definition two_accounts :: "crypto \<Rightarrow> blockchain" where
  "two_accounts cr =
     snd (createAccount cr 0 [] 1700000000060 ''bob'' False
       (snd (createAccount cr 0 [] 1700000000050 ''genesis'' False
         (new_Blockchain cr ''id-1'' 1700000000000 1700000000001))))"

definition spend1 :: transaction where
  "spend1 =
     new_Transaction ''id-2'' 1700000000300 (Some ''genesis'') (Some ''bob'') 600000 ''transfer''"

definition spend2 :: transaction where
  "spend2 =
     new_Transaction ''id-3'' 1700000000400 (Some ''genesis'') (Some ''bob'') 600000 ''transfer''"

definition after_spend1 :: "crypto \<Rightarrow> blockchain" where
  "after_spend1 cr = snd (createTransaction cr spend1 (two_accounts cr))"

definition after_spend2 :: "crypto \<Rightarrow> blockchain" where
  "after_spend2 cr = snd (createTransaction cr spend2 (after_spend1 cr))"

text \<open>The result of mining the two transfers with the small digest, \<^verbatim>\<open>bob\<close> as miner.\<close>

definition mined_spends :: "((error + unit) \<times> blockchain) option" where
  "mined_spends =
     minePendingTransactions toy_crypto 1700000000500 1700000000501 1700000000900 ''bob''
       (after_spend2 toy_crypto)"

text \<open>
  Blocks that differ in their recorded mining time only, and ledgers whose chains are
  made of them: the first block, like a genesis block, has no recorded time.
\<close>

definition timed_block :: "int option \<Rightarrow> block" where
  "timed_block t =
     \<lparr>timestamp = 1700000000000, transactions = [], previousHash = ''00aa'', hash = ''00aa'',
      nonce = 7, miner = Some ''0xm'', reward = 10, miningTime = t\<rparr>"

definition ledger_of_times :: "int option list \<Rightarrow> blockchain" where
  "ledger_of_times ts =
     \<lparr>chain = map timed_block (None # ts), difficulty = 2, pendingTransactions = [],
      accounts = [], faucetHistory = [], autoMining = False, miners = [],
      miningInterval = None, autoMineInterval = None, minTransactionsToMine = 1,
      maxBlockTime = 30000, lastBlockTime = 1700000000001, totalBlocksMined = 0,
      totalRewardsPaid = 0\<rparr>"

definition ledger_short :: blockchain where
  "ledger_short = ledger_of_times [Some 1000, Some 1000]"

definition ledger_four_timed :: blockchain where
  "ledger_four_timed = ledger_of_times [Some 1000, Some 1000, Some 1000, Some 1000]"

definition ledger_fast :: blockchain where
  "ledger_fast = ledger_of_times [Some 1000, Some 1000, Some 1000, Some 1000, Some 1000]"

definition ledger_slow :: blockchain where
  "ledger_slow = ledger_of_times [Some 30000, Some 30000, Some 30000, Some 30000, Some 30000]"

definition ledger_steady :: blockchain where
  "ledger_steady = ledger_of_times [Some 10000, Some 10000, Some 10000, Some 10000, Some 10000]"

text \<open>A scheduler configuration that sets the interval only.\<close>

definition config0 :: mining_config where
  "config0 =
     \<lparr>cfg_autoMineInterval = Some 5000, cfg_minTransactionsToMine = None,
      cfg_maxBlockTime = Some 0\<rparr>"

section \<open>Properties of transactions\<close>

lemma calculateHash_signature [simp]:
  "Transaction_calculateHash cr (t\<lparr>signature := s\<rparr>) = Transaction_calculateHash cr t"
  by (simp add: Transaction_calculateHash_def fingerprint_input_def split: option.split)

text \<open>
  Claim C6. For every transaction: with \<open>from\<close> null, \<open>isValid\<close> returns true; with a
  sender and a signature that is null or empty, it fails with \<open>MissingSignature\<close>; with
  a sender and a non-empty signature, it returns whether the signature is the keyed MAC
  of the fingerprint under the key \<open>from\<close>; and signing with the sender's own address
  makes \<open>isValid\<close> return true. The last part needs the MAC to print as a non-empty
  text, which the hexadecimal digest of the library always is.
\<close>

theorem isValid_spec:
  "(tx_from t = None \<longrightarrow> isValid cr t = Inr True) \<and>
   (tx_from t = Some a \<and> (signature t = None \<or> signature t = Some [])
      \<longrightarrow> isValid cr t = Inl MissingSignature) \<and>
   (tx_from t = Some a \<and> signature t = Some s \<and> s \<noteq> []
      \<longrightarrow> isValid cr t = Inr (s = HmacSHA256 cr (Transaction_calculateHash cr t) a)) \<and>
   (tx_from t = Some a \<and> HmacSHA256 cr (Transaction_calculateHash cr t) a \<noteq> []
      \<longrightarrow> isValid cr (signTransaction cr a t) = Inr True)"
  by (auto simp: isValid_def signTransaction_def Let_def)

theorem isValid_spec_witness:
  "isValid toy_crypto (tx_alice\<lparr>tx_from := None\<rparr>) = Inr True \<and>
   isValid toy_crypto tx_alice = Inl MissingSignature \<and>
   isValid toy_crypto (tx_alice\<lparr>signature := Some ''forged''\<rparr>) = Inr False \<and>
   isValid toy_crypto (signTransaction toy_crypto ''0xa11ce'' tx_alice) = Inr True"
proof -
  have 1: "tx_from (tx_alice\<lparr>tx_from := None\<rparr>) = None"
    by simp
  have 2: "tx_from tx_alice = Some ''0xa11ce'' \<and>
           (signature tx_alice = None \<or> signature tx_alice = Some [])"
    by (simp add: tx_alice_def new_Transaction_def)
  have 3: "tx_from (tx_alice\<lparr>signature := Some ''forged''\<rparr>) = Some ''0xa11ce'' \<and>
           signature (tx_alice\<lparr>signature := Some ''forged''\<rparr>) = Some ''forged'' \<and>
           ''forged'' \<noteq> []"
    by (simp add: tx_alice_def new_Transaction_def)
  have 4: "tx_from tx_alice = Some ''0xa11ce'' \<and>
           HmacSHA256 toy_crypto (Transaction_calculateHash toy_crypto tx_alice) ''0xa11ce'' \<noteq> []"
    by code_simp
  have 5: "''forged'' \<noteq> HmacSHA256 toy_crypto
             (Transaction_calculateHash toy_crypto (tx_alice\<lparr>signature := Some ''forged''\<rparr>))
             ''0xa11ce''"
    by code_simp
  show ?thesis
    using isValid_spec [of "tx_alice\<lparr>tx_from := None\<rparr>" toy_crypto "''0xa11ce''" "''forged''"]
      isValid_spec [of tx_alice toy_crypto "''0xa11ce''" "''forged''"]
      isValid_spec [of "tx_alice\<lparr>signature := Some ''forged''\<rparr>" toy_crypto "''0xa11ce''"
        "''forged''"]
      1 2 3 4 5
    by simp
qed

section \<open>Properties of mining a block\<close>

lemma next_nonce_fields:
  "transactions (next_nonce cr b) = transactions b"
  "previousHash (next_nonce cr b) = previousHash b"
  "timestamp (next_nonce cr b) = timestamp b"
  "miner (next_nonce cr b) = miner b"
  "reward (next_nonce cr b) = reward b"
  "miningTime (next_nonce cr b) = miningTime b"
  "hash (next_nonce cr b) = Block_calculateHash cr (next_nonce cr b)"
  by (simp_all add: next_nonce_def Let_def Block_calculateHash_def)

lemma mined_from_step:
  "mined_from cr d (next_nonce cr b) b' \<Longrightarrow> mined_from cr d b b'"
  by (auto simp: mined_from_def next_nonce_fields)

lemma mine_loop_result:
  assumes "mine_loop cr d b = Some b'"
  shows "mined_from cr d b b'"
proof (rule mine_loop.raw_induct [where P = mined_from, OF _ assms])
  fix ml cr d b b'
  assume IH: "\<And>c e x y. ml c e x = Some y \<Longrightarrow> mined_from c e x y"
    and eq: "(if take d (hash b) \<noteq> target d then ml cr d (next_nonce cr b) else Some b)
             = Some b'"
  show "mined_from cr d b b'"
  proof (cases "take d (hash b) \<noteq> target d")
    case True
    with eq have "ml cr d (next_nonce cr b) = Some b'"
      by simp
    then show ?thesis
      by (rule mined_from_step [OF IH])
  next
    case False
    with eq show ?thesis
      by (simp add: mined_from_def)
  qed
qed

lemma mineBlock_Some:
  "mineBlock cr d m b = Some b' \<Longrightarrow>
     \<exists>b1. mine_loop cr d b = Some b1 \<and> b' = b1\<lparr>miner := Some m, reward := 10\<rparr>"
  by (auto simp: mineBlock_def split: option.splits)

text \<open>
  Claim C2 (the code does not do what the claim says). When \<open>mineBlock\<close> returns, the
  miner is the given address, the reward is 10 and the first \<open>d\<close> characters of the
  stored hash are zeros; but the stored hash is either the hash the block came with (the
  loop did not run) or the digest of the block with the miner it had before the call.
  The miner is assigned after the loop and the hash is not computed again, so the stored
  hash is not the digest of the block's current fields.
\<close>

theorem mineBlock_hash_stale:
  assumes "mineBlock cr d m b = Some b'"
  shows "miner b' = Some m \<and> reward b' = 10 \<and> take d (hash b') = target d \<and>
         (hash b' = hash b \<and> nonce b' = nonce b \<or>
          hash b' = Block_calculateHash cr (b'\<lparr>miner := miner b\<rparr>))"
proof -
  from mineBlock_Some [OF assms] obtain b1 where
    loop: "mine_loop cr d b = Some b1" and b': "b' = b1\<lparr>miner := Some m, reward := 10\<rparr>"
    by blast
  from mine_loop_result [OF loop] have m: "mined_from cr d b b1" .
  have "Block_calculateHash cr (b'\<lparr>miner := miner b\<rparr>) = Block_calculateHash cr b1"
    using m by (simp add: b' Block_calculateHash_def mined_from_def)
  with m show ?thesis
    by (auto simp: b' mined_from_def)
qed

theorem mineBlock_hash_stale_witness:
  "mineBlock toy_crypto 2 ''0xm'' block0 = Some mined0 \<and>
   miner mined0 = Some ''0xm'' \<and> reward mined0 = 10 \<and> take 2 (hash mined0) = ''00'' \<and>
   hash mined0 = Block_calculateHash toy_crypto (mined0\<lparr>miner := None\<rparr>) \<and>
   hash mined0 \<noteq> Block_calculateHash toy_crypto mined0"
proof -
  have run: "mineBlock toy_crypto 2 ''0xm'' block0 = Some mined0"
    by code_simp
  have stale: "hash mined0 \<noteq> Block_calculateHash toy_crypto mined0"
    by code_simp
  have moved: "hash mined0 \<noteq> hash block0"
    by code_simp
  have unmined: "miner block0 = None"
    by (simp add: block0_def new_Block_def)
  have zeros: "target 2 = ''00''"
    by (simp add: target_def numeral_2_eq_2)
  from mineBlock_hash_stale [OF run] have
    fields: "miner mined0 = Some ''0xm''" "reward mined0 = 10"
      "take 2 (hash mined0) = target 2"
    and cases: "hash mined0 = hash block0 \<and> nonce mined0 = nonce block0 \<or>
      hash mined0 = Block_calculateHash toy_crypto (mined0\<lparr>miner := miner block0\<rparr>)"
    by blast+
  from cases moved have
    "hash mined0 = Block_calculateHash toy_crypto (mined0\<lparr>miner := miner block0\<rparr>)"
    by blast
  then have "hash mined0 = Block_calculateHash toy_crypto (mined0\<lparr>miner := None\<rparr>)"
    unfolding unmined .
  with run fields [unfolded zeros] stale show ?thesis
    by blast
qed

section \<open>Properties of the account directory\<close>

lemma find_address:
  "list_ex (\<lambda>acc. address acc = a) accs \<Longrightarrow>
     \<exists>acc. find (\<lambda>acc. address acc = a) accs = Some acc \<and> address acc = a"
  by (induction accs) auto

lemma resolveAddress_registered:
  "accounts_has bc a \<Longrightarrow> resolveAddress bc a = a"
  using find_address [of a "accounts bc"]
  by (auto simp: accounts_has_def resolveAddress_def findAccount_def)

text \<open>
  Claim C10 (the code does not do what the claim says for aliases). Creating an account
  under a literal address that is registered fails and leaves the ledger as it was.
  Creating an account under an alias never looks at the aliases in the directory: the
  only test is whether the freshly generated address is registered, so an alias that a
  registered account holds is accepted and a second account with that alias is added.
\<close>

theorem createAccount_duplicates:
  "(accounts_has bc a \<longrightarrow>
      createAccount cr now rnd now' a False bc = (Inl DuplicateAccount, bc)) \<and>
   (list_ex (\<lambda>acc. acc_alias acc = Some a) (accounts bc) \<and>
    \<not> accounts_has bc (generateAddress cr now rnd (Some a)) \<longrightarrow>
      createAccount cr now rnd now' a True bc =
        (Inr (generateAddress cr now rnd (Some a), Some a),
         bc\<lparr>accounts := accounts bc @
              [\<lparr>address = generateAddress cr now rnd (Some a), acc_alias = Some a,
                createdAt = now'\<rparr>]\<rparr>))"
  by (simp add: createAccount_def Let_def)

theorem createAccount_duplicates_witness:
  "createAccount toy_crypto 0 [] 1700000000900 ''0x001668'' False ledger_alice
     = (Inl DuplicateAccount, ledger_alice) \<and>
   map acc_alias (accounts ledger_alice) = [Some ''alice''] \<and>
   fst (createAccount toy_crypto 1700000000700 ''q7w2'' 1700000000701 ''alice'' True ledger_alice)
     = Inr (''0xa01676'', Some ''alice'') \<and>
   map acc_alias (accounts (snd (createAccount toy_crypto 1700000000700 ''q7w2'' 1700000000701
     ''alice'' True ledger_alice))) = [Some ''alice'', Some ''alice'']"
proof -
  have held: "list_ex (\<lambda>acc. acc_alias acc = Some ''alice'') (accounts ledger_alice)"
    by code_simp
  have registered: "accounts_has ledger_alice ''0x001668''"
    by code_simp
  have fresh: "\<not> accounts_has ledger_alice
                 (generateAddress toy_crypto 1700000000700 ''q7w2'' (Some ''alice''))"
    by code_simp
  have addr: "generateAddress toy_crypto 1700000000700 ''q7w2'' (Some ''alice'') = ''0xa01676''"
    by code_simp
  have aliases: "map acc_alias (accounts ledger_alice) = [Some ''alice'']"
    by code_simp
  from createAccount_duplicates
    [of ledger_alice "''0x001668''" toy_crypto 0 "[]" 1700000000900] registered
  have dup: "createAccount toy_crypto 0 [] 1700000000900 ''0x001668'' False ledger_alice
               = (Inl DuplicateAccount, ledger_alice)"
    by blast
  from createAccount_duplicates
    [of ledger_alice "''alice''" toy_crypto 1700000000700 "''q7w2''" 1700000000701] held fresh
  have "createAccount toy_crypto 1700000000700 ''q7w2'' 1700000000701 ''alice'' True ledger_alice
          = (Inr (generateAddress toy_crypto 1700000000700 ''q7w2'' (Some ''alice''), Some ''alice''),
             ledger_alice\<lparr>accounts := accounts ledger_alice @
               [\<lparr>address = generateAddress toy_crypto 1700000000700 ''q7w2'' (Some ''alice''),
                 acc_alias = Some ''alice'', createdAt = 1700000000701\<rparr>]\<rparr>)"
    by blast
  with dup aliases addr show ?thesis
    by simp
qed

section \<open>Properties of chain validation\<close>

text \<open>
  The text of a JSON string determines the string: no escape begins with a double quote,
  and an escape determines the character it stands for.
\<close>

lemma hex_digit_code: "n < 16 \<Longrightarrow> (of_char (hex_digit n) :: nat) = (if n < 10 then 48 + n else 87 + n)"
  by (simp add: hex_digit_def)

lemma hex_digit_inj:
  assumes "m < 16" and "n < 16" and "hex_digit m = hex_digit n"
  shows "m = n"
proof -
  from assms(3) have "(of_char (hex_digit m) :: nat) = of_char (hex_digit n)"
    by simp
  with assms(1,2) show ?thesis
    by (simp add: hex_digit_code split: if_splits)
qed

lemma json_escape_hd: "\<exists>x xs. json_escape c = x # xs \<and> x \<noteq> CHR 0x22"
  by (simp add: json_escape_def)

lemma low_char_eq:
  assumes "(of_char c :: nat) div 16 = of_char c' div 16"
    and "(of_char c :: nat) mod 16 = of_char c' mod 16"
  shows "c = c'"
proof -
  have "(of_char c :: nat) = of_char c'"
    using assms by (metis div_mult_mod_eq)
  then show ?thesis
    by simp
qed

lemma json_escape_shape:
  "json_escape c = [c] \<and> c \<noteq> CHR 0x5C
   \<or> (\<exists>k. json_escape c = [CHR 0x5C, k] \<and> k \<noteq> CHR ''u'' \<and> c = short_escaped k)
   \<or> json_escape c = [CHR 0x5C, CHR ''u'', CHR ''0'', CHR ''0'',
         hex_digit (of_char c div 16), hex_digit (of_char c mod 16)]"
  by (simp add: json_escape_def short_escaped_def)

lemma json_escape_long:
  assumes "hex_digit (of_char c div 16) = hex_digit (of_char c' div 16)"
    and "hex_digit (of_char c mod 16) = hex_digit (of_char c' mod 16)"
  shows "c = c'"
proof -
  have "(of_char c :: nat) < 16 * 16" "(of_char c' :: nat) < 16 * 16"
    by simp_all
  then have d: "(of_char c :: nat) div 16 < 16" "(of_char c :: nat) mod 16 < 16"
    "(of_char c' :: nat) div 16 < 16" "(of_char c' :: nat) mod 16 < 16"
    by (simp_all add: less_mult_imp_div_less)
  from hex_digit_inj [OF d(1) d(3) assms(1)] hex_digit_inj [OF d(2) d(4) assms(2)]
  show ?thesis
    by (rule low_char_eq)
qed

lemma json_escape_prefix:
  assumes "json_escape c @ x = json_escape c' @ y"
  shows "c = c' \<and> x = y"
proof -
  consider (plain) "json_escape c = [c]" "c \<noteq> CHR 0x5C"
    | (short) k where "json_escape c = [CHR 0x5C, k]" "k \<noteq> CHR ''u''" "c = short_escaped k"
    | (long) "json_escape c = [CHR 0x5C, CHR ''u'', CHR ''0'', CHR ''0'',
         hex_digit (of_char c div 16), hex_digit (of_char c mod 16)]"
    using json_escape_shape [of c] by blast
  then show ?thesis
  proof cases
    case plain
    consider (plain') "json_escape c' = [c']" "c' \<noteq> CHR 0x5C"
      | (other') r where "json_escape c' = CHR 0x5C # r"
      using json_escape_shape [of c'] by blast
    then show ?thesis
    proof cases
      case plain'
      with plain assms show ?thesis by simp
    next
      case other'
      with plain assms show ?thesis by simp
    qed
  next
    case short
    consider (plain') "json_escape c' = [c']" "c' \<noteq> CHR 0x5C"
      | (short') k' where "json_escape c' = [CHR 0x5C, k']" "c' = short_escaped k'"
      | (long') r where "json_escape c' = CHR 0x5C # CHR ''u'' # r"
      using json_escape_shape [of c'] by blast
    then show ?thesis
    proof cases
      case plain'
      with short assms show ?thesis by simp
    next
      case short'
      with short assms show ?thesis by simp
    next
      case long'
      with short assms show ?thesis by simp
    qed
  next
    case long
    consider (plain') "json_escape c' = [c']" "c' \<noteq> CHR 0x5C"
      | (short') k' where "json_escape c' = [CHR 0x5C, k']" "k' \<noteq> CHR ''u''"
      | (long') "json_escape c' = [CHR 0x5C, CHR ''u'', CHR ''0'', CHR ''0'',
           hex_digit (of_char c' div 16), hex_digit (of_char c' mod 16)]"
      using json_escape_shape [of c'] by blast
    then show ?thesis
    proof cases
      case plain'
      with long assms show ?thesis by simp
    next
      case short'
      with long assms show ?thesis by simp
    next
      case long'
      with long assms have
        "hex_digit (of_char c div 16) = hex_digit (of_char c' div 16)"
        "hex_digit (of_char c mod 16) = hex_digit (of_char c' mod 16)" "x = y"
        by simp_all
      with json_escape_long [of c c'] show ?thesis by simp
    qed
  qed
qed

lemma concat_escape_inj:
  "concat (map json_escape a) @ CHR 0x22 # r = concat (map json_escape b) @ CHR 0x22 # r'
     \<Longrightarrow> a = b"
proof (induction a arbitrary: b)
  case Nil
  show ?case
  proof (cases b)
    case Nil
    then show ?thesis by simp
  next
    case (Cons c cs)
    obtain x xs where "json_escape c = x # xs" "x \<noteq> CHR 0x22"
      using json_escape_hd by blast
    with Nil.prems Cons show ?thesis
      by simp
  qed
next
  case (Cons c cs)
  show ?case
  proof (cases b)
    case Nil
    obtain x xs where "json_escape c = x # xs" "x \<noteq> CHR 0x22"
      using json_escape_hd by blast
    with Cons.prems Nil show ?thesis
      by simp
  next
    case (Cons c' cs')
    with Cons.prems have
      "json_escape c @ (concat (map json_escape cs) @ CHR 0x22 # r)
         = json_escape c' @ (concat (map json_escape cs') @ CHR 0x22 # r')"
      by simp
    from json_escape_prefix [OF this] Cons.IH [of cs'] Cons show ?thesis
      by simp
  qed
qed

lemma json_string_inj:
  "json_string a @ r = json_string b @ r' \<Longrightarrow> a = b"
  using concat_escape_inj [of a r b r'] by (simp add: json_string_def)

lemma stringify_genesis:
  "\<exists>r. stringify_block (createGenesisBlock cr uuid now) =
     (''{'' @ json_key ''timestamp'' @ show_int 1704067200000 @ '','' @
      json_key ''transactions'' @ ''[{'' @ json_key ''id'') @ json_string uuid @ r"
  by (simp add: createGenesisBlock_def new_Block_def new_Transaction_def
      stringify_block_def stringify_transactions_def json_array_def
      stringify_transaction_def Let_def)

text \<open>
  Claim C1 (the code does not do what the claim says). \<open>isChainValid\<close> builds the
  genesis block anew, and with it a genesis transaction that carries a fresh
  \<^verbatim>\<open>uuidv4()\<close> and the current time. Whenever that identifier differs from the one
  the constructor drew, the two texts compared differ and \<open>isChainValid\<close> returns
  false on the ledger as the constructor left it, whatever the digest and the clock are.
\<close>

theorem isChainValid_fresh_ledger:
  assumes "uuid' \<noteq> uuid"
  shows "isChainValid cr uuid' now2 (new_Blockchain cr uuid now now') = Inr False"
proof -
  have "stringify_block (createGenesisBlock cr uuid' now2)
          \<noteq> stringify_block (createGenesisBlock cr uuid now)"
  proof
    assume eq: "stringify_block (createGenesisBlock cr uuid' now2)
                  = stringify_block (createGenesisBlock cr uuid now)"
    from stringify_genesis [of cr uuid' now2] stringify_genesis [of cr uuid now] eq
    obtain r r' where "json_string uuid' @ r = json_string uuid @ r'"
      by (metis same_append_eq)
    then have "uuid' = uuid"
      by (rule json_string_inj)
    with assms show False
      by simp
  qed
  then show ?thesis
    by (simp add: isChainValid_def new_Blockchain_def Let_def)
qed

theorem isChainValid_fresh_ledger_witness:
  "isChainValid toy_crypto ''id-2'' 1700000000002 ledger0 = Inr False"
  using isChainValid_fresh_ledger [of "''id-2''" "''id-1''" toy_crypto 1700000000002]
  by (simp add: ledger0_def)

section \<open>Properties of the faucet\<close>

lemma genesis_balance:
  "fold (balance_after_block ''genesis'') [createGenesisBlock cr uuid now] 0 = 1000000"
  by (simp add: createGenesisBlock_def new_Block_def new_Transaction_def
      balance_after_block_def balance_after_transaction_def Let_def)

text \<open>
  Claim C3, as stated: on the constructor's ledger with the claimant \<^verbatim>\<open>alice\<close>
  registered and no claim made, \<open>useFaucet\<close> succeeds. It does not: the reserve address
  \<^verbatim>\<open>genesis\<close> is not a registered account, \<open>getAccountBalance\<close> returns 0 for it, and
  the claim fails with \<open>FaucetEmpty\<close>.
\<close>

theorem useFaucet_fresh_counterexample:
  "accounts_has ledger_alice (resolveAddress ledger_alice ''alice'') \<and>
   map_of (faucetHistory ledger_alice) (resolveAddress ledger_alice ''alice'') = None \<and>
   fst (useFaucet 1700000000200 ''id-2'' 1700000000201 1700000000202 ''alice'' ledger_alice)
     = Inl FaucetEmpty"
  by code_simp

text \<open>
  Claim C3, amended: on a ledger whose chain is the constructor's and in which the
  reserve address \<^verbatim>\<open>genesis\<close> is registered as an account (the server registers it at
  start-up), a claim for a registered claimant without a recorded claim succeeds. It
  returns the configured amount, leaves the chain as it was, records the time of the
  claim and appends to the pending pool one unsigned transaction of the configured amount
  from the reserve address to the claimant.
\<close>

theorem useFaucet_reserve_registered:
  assumes "chain bc = [createGenesisBlock cr uuid0 now0]"
    and "accounts_has bc faucetAddress"
    and "accounts_has bc (resolveAddress bc claimant)"
    and "map_of (faucetHistory bc) (resolveAddress bc claimant) = None"
  shows "useFaucet now uuid now' now'' claimant bc =
           (Inr \<lparr>receipt_amount = faucetAmount, transactionId = uuid,
                  recipient = resolveAddress bc claimant\<rparr>,
            bc\<lparr>faucetHistory := map_set (resolveAddress bc claimant) now'' (faucetHistory bc),
               pendingTransactions := pendingTransactions bc @
                 [\<lparr>tx_id = uuid, tx_from = Some faucetAddress,
                   tx_to = Some (resolveAddress bc claimant), amount = faucetAmount,
                   tx_type = ''faucet'', tx_timestamp = now', signature = None\<rparr>]\<rparr>)"
proof -
  have can: "canUse (canUseFaucet now claimant bc)"
    using assms(3,4) by (simp add: canUseFaucet_def Let_def)
  have "resolveAddress bc faucetAddress = faucetAddress"
    using assms(2) by (rule resolveAddress_registered)
  then have "getAccountBalance bc faucetAddress = 1000000"
    using assms(1,2) genesis_balance [of cr uuid0 now0]
    by (simp add: getAccountBalance_def Let_def faucetAddress_def)
  then have bal: "\<not> getAccountBalance bc faucetAddress < faucetAmount"
    by (simp add: faucetAmount_def)
  show ?thesis
    using can bal by (simp add: useFaucet_def Let_def new_Transaction_def)
qed

theorem useFaucet_reserve_registered_witness:
  "chain ledger_reserve = [createGenesisBlock toy_crypto ''id-1'' 1700000000000] \<and>
   accounts_has ledger_reserve ''genesis'' \<and>
   resolveAddress ledger_reserve ''alice'' = ''0x001668'' \<and>
   accounts_has ledger_reserve ''0x001668'' \<and>
   faucetHistory ledger_reserve = [] \<and>
   useFaucet 1700000000200 ''id-2'' 1700000000201 1700000000202 ''alice'' ledger_reserve =
     (Inr \<lparr>receipt_amount = 100, transactionId = ''id-2'', recipient = ''0x001668''\<rparr>,
      ledger_reserve\<lparr>faucetHistory := [(''0x001668'', 1700000000202)],
        pendingTransactions :=
          [\<lparr>tx_id = ''id-2'', tx_from = Some ''genesis'', tx_to = Some ''0x001668'',
            amount = 100, tx_type = ''faucet'', tx_timestamp = 1700000000201,
            signature = None\<rparr>]\<rparr>)"
proof -
  have c: "chain ledger_reserve = [createGenesisBlock toy_crypto ''id-1'' 1700000000000]"
    by (simp add: ledger_reserve_def ledger0_def createAccount_def new_Blockchain_def Let_def)
  have g: "accounts_has ledger_reserve faucetAddress"
    by code_simp
  have r: "resolveAddress ledger_reserve ''alice'' = ''0x001668''"
    by code_simp
  have a: "accounts_has ledger_reserve ''0x001668''"
    by code_simp
  have h: "faucetHistory ledger_reserve = []"
    by (simp add: ledger_reserve_def ledger0_def createAccount_def new_Blockchain_def Let_def)
  have p: "pendingTransactions ledger_reserve = []"
    by (simp add: ledger_reserve_def ledger0_def createAccount_def new_Blockchain_def Let_def)
  from useFaucet_reserve_registered
    [of ledger_reserve toy_crypto "''id-1''" 1700000000000 "''alice''"
      1700000000200 "''id-2''" 1700000000201 1700000000202]
    c g a r h p
  show ?thesis
    by (simp add: faucetAddress_def faucetAmount_def)
qed

section \<open>Properties of transaction submission\<close>

text \<open>
  Claim C4. \<open>createTransaction\<close> fails with \<open>MissingAddress\<close> when an endpoint is null
  or empty; otherwise with \<open>UnknownAccount\<close> when a resolved endpoint is not registered;
  otherwise with \<open>InsufficientBalance\<close> when the sender's balance, which is the fold of
  the chain alone, is below the amount; otherwise it succeeds, and the transaction, with
  both endpoints replaced by the resolved addresses and signed under the sender's
  resolved address, is appended to the pending pool, nothing else changing. A call that
  fails leaves the ledger as it was.
\<close>

theorem createTransaction_outcomes:
  "(absent (tx_from tx) \<or> absent (tx_to tx)
      \<longrightarrow> createTransaction cr tx bc = (Inl MissingAddress, bc)) \<and>
   (tx_from tx = Some f \<and> f \<noteq> [] \<and> tx_to tx = Some t \<and> t \<noteq> [] \<longrightarrow>
      (\<not> accounts_has bc (resolveAddress bc f) \<or> \<not> accounts_has bc (resolveAddress bc t)
         \<longrightarrow> createTransaction cr tx bc = (Inl UnknownAccount, bc)) \<and>
      (accounts_has bc (resolveAddress bc f) \<and> accounts_has bc (resolveAddress bc t) \<longrightarrow>
         getAccountBalance bc f = fold (balance_after_block (resolveAddress bc f)) (chain bc) 0 \<and>
         (getAccountBalance bc f < amount tx
            \<longrightarrow> createTransaction cr tx bc = (Inl InsufficientBalance, bc)) \<and>
         (amount tx \<le> getAccountBalance bc f \<longrightarrow>
            createTransaction cr tx bc =
              (Inr (tx\<lparr>tx_from := Some (resolveAddress bc f),
                        tx_to := Some (resolveAddress bc t),
                        signature := Some (HmacSHA256 cr
                          (Transaction_calculateHash cr
                             (tx\<lparr>tx_from := Some (resolveAddress bc f),
                                 tx_to := Some (resolveAddress bc t)\<rparr>))
                          (resolveAddress bc f))\<rparr>),
               bc\<lparr>pendingTransactions := pendingTransactions bc @
                    [tx\<lparr>tx_from := Some (resolveAddress bc f),
                        tx_to := Some (resolveAddress bc t),
                        signature := Some (HmacSHA256 cr
                          (Transaction_calculateHash cr
                             (tx\<lparr>tx_from := Some (resolveAddress bc f),
                                 tx_to := Some (resolveAddress bc t)\<rparr>))
                          (resolveAddress bc f))\<rparr>]\<rparr>)))) \<and>
   (\<forall>e. fst (createTransaction cr tx bc) = Inl e \<longrightarrow> snd (createTransaction cr tx bc) = bc)"
proof (intro conjI impI allI)
  assume "absent (tx_from tx) \<or> absent (tx_to tx)"
  then show "createTransaction cr tx bc = (Inl MissingAddress, bc)"
    by (simp add: createTransaction_def)
next
  assume p: "tx_from tx = Some f \<and> f \<noteq> [] \<and> tx_to tx = Some t \<and> t \<noteq> []"
    and "\<not> accounts_has bc (resolveAddress bc f) \<or> \<not> accounts_has bc (resolveAddress bc t)"
  then show "createTransaction cr tx bc = (Inl UnknownAccount, bc)"
    by (auto simp: createTransaction_def absent_def Let_def)
next
  assume "accounts_has bc (resolveAddress bc f) \<and> accounts_has bc (resolveAddress bc t)"
  then show "getAccountBalance bc f
               = fold (balance_after_block (resolveAddress bc f)) (chain bc) 0"
    by (simp add: getAccountBalance_def Let_def)
next
  assume "tx_from tx = Some f \<and> f \<noteq> [] \<and> tx_to tx = Some t \<and> t \<noteq> []"
    and "accounts_has bc (resolveAddress bc f) \<and> accounts_has bc (resolveAddress bc t)"
    and "getAccountBalance bc f < amount tx"
  then show "createTransaction cr tx bc = (Inl InsufficientBalance, bc)"
    by (simp add: createTransaction_def absent_def Let_def)
next
  assume "tx_from tx = Some f \<and> f \<noteq> [] \<and> tx_to tx = Some t \<and> t \<noteq> []"
    and "accounts_has bc (resolveAddress bc f) \<and> accounts_has bc (resolveAddress bc t)"
    and "amount tx \<le> getAccountBalance bc f"
  then show "createTransaction cr tx bc =
      (Inr (tx\<lparr>tx_from := Some (resolveAddress bc f), tx_to := Some (resolveAddress bc t),
                signature := Some (HmacSHA256 cr
                  (Transaction_calculateHash cr
                     (tx\<lparr>tx_from := Some (resolveAddress bc f),
                         tx_to := Some (resolveAddress bc t)\<rparr>))
                  (resolveAddress bc f))\<rparr>),
       bc\<lparr>pendingTransactions := pendingTransactions bc @
            [tx\<lparr>tx_from := Some (resolveAddress bc f), tx_to := Some (resolveAddress bc t),
                signature := Some (HmacSHA256 cr
                  (Transaction_calculateHash cr
                     (tx\<lparr>tx_from := Some (resolveAddress bc f),
                         tx_to := Some (resolveAddress bc t)\<rparr>))
                  (resolveAddress bc f))\<rparr>]\<rparr>)"
    by (simp add: createTransaction_def absent_def Let_def signTransaction_def)
next
  fix e
  assume "fst (createTransaction cr tx bc) = Inl e"
  then show "snd (createTransaction cr tx bc) = bc"
    by (auto simp: createTransaction_def Let_def split: if_splits)
qed

theorem createTransaction_outcomes_witness:
  "createTransaction toy_crypto (spend1\<lparr>tx_to := Some []\<rparr>) (two_accounts toy_crypto)
     = (Inl MissingAddress, two_accounts toy_crypto) \<and>
   createTransaction toy_crypto (spend1\<lparr>tx_to := Some ''carol''\<rparr>) (two_accounts toy_crypto)
     = (Inl UnknownAccount, two_accounts toy_crypto) \<and>
   getAccountBalance (two_accounts toy_crypto) ''genesis'' = 1000000 \<and>
   createTransaction toy_crypto (spend1\<lparr>amount := 1000001\<rparr>) (two_accounts toy_crypto)
     = (Inl InsufficientBalance, two_accounts toy_crypto) \<and>
   pendingTransactions (snd (createTransaction toy_crypto spend1 (two_accounts toy_crypto)))
     = [spend1\<lparr>signature := Some ''001107''\<rparr>]"
proof -
  let ?bc = "two_accounts toy_crypto"
  have g: "resolveAddress ?bc ''genesis'' = ''genesis''" and b: "resolveAddress ?bc ''bob'' = ''bob''"
    and c: "resolveAddress ?bc ''carol'' = ''carol''"
    by code_simp+
  have hg: "accounts_has ?bc ''genesis''" and hb: "accounts_has ?bc ''bob''"
    and hc: "\<not> accounts_has ?bc ''carol''"
    by code_simp+
  have bal: "getAccountBalance ?bc ''genesis'' = 1000000"
    by code_simp
  have pool: "pendingTransactions ?bc = []"
    by (simp add: two_accounts_def createAccount_def new_Blockchain_def Let_def)
  have sig: "HmacSHA256 toy_crypto (Transaction_calculateHash toy_crypto spend1) ''genesis''
               = ''001107''"
    by code_simp
  have s1: "tx_from spend1 = Some ''genesis''" "tx_to spend1 = Some ''bob''"
    "amount spend1 = 600000"
    by (simp_all add: spend1_def new_Transaction_def)
  have same: "spend1\<lparr>tx_from := Some ''genesis'', tx_to := Some ''bob''\<rparr> = spend1"
    by (simp add: spend1_def new_Transaction_def)
  have 1: "createTransaction toy_crypto (spend1\<lparr>tx_to := Some []\<rparr>) ?bc
             = (Inl MissingAddress, ?bc)"
    using createTransaction_outcomes
      [of "spend1\<lparr>tx_to := Some []\<rparr>" toy_crypto ?bc "''genesis''" "[]"]
    by (simp add: absent_def)
  have 2: "createTransaction toy_crypto (spend1\<lparr>tx_to := Some ''carol''\<rparr>) ?bc
             = (Inl UnknownAccount, ?bc)"
    using createTransaction_outcomes
      [of "spend1\<lparr>tx_to := Some ''carol''\<rparr>" toy_crypto ?bc "''genesis''" "''carol''"]
      s1 g c hc
    by simp
  have 3: "createTransaction toy_crypto (spend1\<lparr>amount := 1000001\<rparr>) ?bc
             = (Inl InsufficientBalance, ?bc)"
    using createTransaction_outcomes
      [of "spend1\<lparr>amount := 1000001\<rparr>" toy_crypto ?bc "''genesis''" "''bob''"]
      s1 g b hg hb bal
    by simp
  have 4: "pendingTransactions (snd (createTransaction toy_crypto spend1 ?bc))
             = [spend1\<lparr>signature := Some ''001107''\<rparr>]"
    using createTransaction_outcomes [of spend1 toy_crypto ?bc "''genesis''" "''bob''"]
      s1 g b hg hb bal pool sig same
    by simp
  from 1 2 3 4 bal show ?thesis
    by blast
qed

section \<open>Properties of difficulty retargeting\<close>

lemma fold_add_miningTime:
  "fold add_miningTime bs (t, c) =
     (t + sum_list (map (\<lambda>b. the (miningTime b)) (filter has_miningTime bs)),
      c + length (filter has_miningTime bs))"
  by (induction bs arbitrary: t c) (simp_all add: add_miningTime_def)

lemma window_times:
  "fold add_miningTime (window bc) (0, 0)
     = (sum_list (recorded_times bc), length (recorded_times bc))"
  by (simp add: fold_add_miningTime recorded_times_def)

lemma last_in_window:
  assumes "difficultyAdjustmentInterval \<le> length (chain bc)"
  shows "last (chain bc) \<in> set (window bc)"
proof -
  have "chain bc \<noteq> []"
    using assms by (auto simp: difficultyAdjustmentInterval_def)
  moreover have "length (chain bc) - difficultyAdjustmentInterval < length (chain bc)"
    using assms by (simp add: difficultyAdjustmentInterval_def)
  ultimately have "window bc \<noteq> []" and "last (window bc) = last (chain bc)"
    by (simp_all add: window_def)
  then show ?thesis
    by (metis last_in_set)
qed

text \<open>
  Claim C5, as stated: with at least five blocks, the mean is taken over the blocks of the
  window that have a recorded duration, and a ratio below 0.5 raises the difficulty by 1.
  It does not when the oldest block of the window has no recorded duration: with a first
  block that has none (as the genesis block) followed by four blocks mined in 1000 ms
  each, the mean of the recorded durations is a tenth of the target, and the difficulty
  stays at 2.
\<close>

theorem adjustDifficulty_counterexample:
  "difficultyAdjustmentInterval \<le> length (chain ledger_four_timed) \<and>
   recorded_times ledger_four_timed = [1000, 1000, 1000, 1000] \<and>
   mean_time ledger_four_timed / of_int targetBlockTime < 1 / 2 \<and>
   difficulty ledger_four_timed = 2 \<and>
   difficulty (adjustDifficulty ledger_four_timed) = 2"
  by code_simp

text \<open>
  Claim C5, amended. \<open>adjustDifficulty\<close> changes nothing when the chain has fewer than
  \<open>difficultyAdjustmentInterval\<close> blocks, and nothing when the oldest block of the window
  or the latest block has no recorded duration or a duration of 0. Otherwise the window
  has recorded non-zero durations; with their mean divided by the target interval as
  ratio, the difficulty grows by exactly 1 when the ratio is below 1/2, falls by exactly
  1, but not below 1, when the ratio is above 2, and stays as it is otherwise; nothing
  but the difficulty changes.
\<close>

theorem adjustDifficulty_guarded:
  "(length (chain bc) < difficultyAdjustmentInterval \<longrightarrow> adjustDifficulty bc = bc) \<and>
   (difficultyAdjustmentInterval \<le> length (chain bc) \<and>
    (\<not> has_miningTime (chain bc ! (length (chain bc) - difficultyAdjustmentInterval)) \<or>
     \<not> has_miningTime (last (chain bc)))
      \<longrightarrow> adjustDifficulty bc = bc) \<and>
   (difficultyAdjustmentInterval \<le> length (chain bc) \<and>
    has_miningTime (chain bc ! (length (chain bc) - difficultyAdjustmentInterval)) \<and>
    has_miningTime (last (chain bc))
      \<longrightarrow> recorded_times bc \<noteq> [] \<and>
          adjustDifficulty bc =
            (if mean_time bc / of_int targetBlockTime < 1 / 2
               then bc\<lparr>difficulty := difficulty bc + 1\<rparr>
             else if mean_time bc / of_int targetBlockTime > 2
               then bc\<lparr>difficulty := max 1 (difficulty bc - 1)\<rparr>
             else bc))"
proof (intro conjI impI)
  assume "length (chain bc) < difficultyAdjustmentInterval"
  then show "adjustDifficulty bc = bc"
    by (simp add: adjustDifficulty_def)
next
  assume "difficultyAdjustmentInterval \<le> length (chain bc) \<and>
    (\<not> has_miningTime (chain bc ! (length (chain bc) - difficultyAdjustmentInterval)) \<or>
     \<not> has_miningTime (last (chain bc)))"
  then show "adjustDifficulty bc = bc"
    by (auto simp: adjustDifficulty_def Let_def)
next
  assume a: "difficultyAdjustmentInterval \<le> length (chain bc) \<and>
    has_miningTime (chain bc ! (length (chain bc) - difficultyAdjustmentInterval)) \<and>
    has_miningTime (last (chain bc))"
  then have "last (chain bc) \<in> set (filter has_miningTime (window bc))"
    using last_in_window [of bc] by simp
  then show ne: "recorded_times bc \<noteq> []"
    by (auto simp: recorded_times_def filter_empty_conv)
  then have "length (recorded_times bc) \<noteq> 0"
    by simp
  with a show "adjustDifficulty bc =
      (if mean_time bc / of_int targetBlockTime < 1 / 2
         then bc\<lparr>difficulty := difficulty bc + 1\<rparr>
       else if mean_time bc / of_int targetBlockTime > 2
         then bc\<lparr>difficulty := max 1 (difficulty bc - 1)\<rparr>
       else bc)"
    by (simp add: adjustDifficulty_def Let_def window_times mean_time_def)
qed

theorem adjustDifficulty_guarded_witness:
  "adjustDifficulty ledger_short = ledger_short \<and>
   adjustDifficulty ledger_four_timed = ledger_four_timed \<and>
   difficulty ledger_fast = 2 \<and> difficulty (adjustDifficulty ledger_fast) = 3 \<and>
   difficulty ledger_slow = 2 \<and> difficulty (adjustDifficulty ledger_slow) = 1 \<and>
   adjustDifficulty ledger_steady = ledger_steady"
proof -
  have short: "length (chain ledger_short) < difficultyAdjustmentInterval"
    by code_simp
  have four: "difficultyAdjustmentInterval \<le> length (chain ledger_four_timed) \<and>
    (\<not> has_miningTime (chain ledger_four_timed !
         (length (chain ledger_four_timed) - difficultyAdjustmentInterval)) \<or>
     \<not> has_miningTime (last (chain ledger_four_timed)))"
    by code_simp
  have fast: "difficultyAdjustmentInterval \<le> length (chain ledger_fast) \<and>
    has_miningTime (chain ledger_fast ! (length (chain ledger_fast) - difficultyAdjustmentInterval)) \<and>
    has_miningTime (last (chain ledger_fast))"
    and fast_ratio: "mean_time ledger_fast / of_int targetBlockTime < 1 / 2"
    and fast_d: "difficulty ledger_fast = 2"
    by code_simp+
  have slow: "difficultyAdjustmentInterval \<le> length (chain ledger_slow) \<and>
    has_miningTime (chain ledger_slow ! (length (chain ledger_slow) - difficultyAdjustmentInterval)) \<and>
    has_miningTime (last (chain ledger_slow))"
    and slow_ratio: "\<not> mean_time ledger_slow / of_int targetBlockTime < 1 / 2"
      "mean_time ledger_slow / of_int targetBlockTime > 2"
    and slow_d: "difficulty ledger_slow = 2"
    by code_simp+
  have steady: "difficultyAdjustmentInterval \<le> length (chain ledger_steady) \<and>
    has_miningTime (chain ledger_steady !
      (length (chain ledger_steady) - difficultyAdjustmentInterval)) \<and>
    has_miningTime (last (chain ledger_steady))"
    and steady_ratio: "\<not> mean_time ledger_steady / of_int targetBlockTime < 1 / 2"
      "\<not> mean_time ledger_steady / of_int targetBlockTime > 2"
    by code_simp+
  have 1: "adjustDifficulty ledger_short = ledger_short"
    using adjustDifficulty_guarded [of ledger_short] short by blast
  have 2: "adjustDifficulty ledger_four_timed = ledger_four_timed"
    using adjustDifficulty_guarded [of ledger_four_timed] four by blast
  have 3: "difficulty (adjustDifficulty ledger_fast) = 3"
    using adjustDifficulty_guarded [of ledger_fast] fast fast_ratio fast_d by simp
  have 4: "difficulty (adjustDifficulty ledger_slow) = 1"
    using adjustDifficulty_guarded [of ledger_slow] slow slow_ratio slow_d by simp
  have 5: "adjustDifficulty ledger_steady = ledger_steady"
    using adjustDifficulty_guarded [of ledger_steady] steady steady_ratio by simp
  from 1 2 3 4 5 fast_d slow_d show ?thesis
    by blast
qed

section \<open>Properties of the mining scheduler\<close>

text \<open>
  Claim C8, as stated: \<open>startAutoMining\<close> fails when no miners are registered. It does
  not; on the constructor's ledger, which has no miners, it succeeds and the scheduler
  runs.
\<close>

theorem startAutoMining_counterexample:
  "miners ledger0 = [] \<and> \<not> autoMining ledger0 \<and>
   fst (startAutoMining config0 ledger0) =
     Inr \<lparr>started_autoMineInterval = 5000, started_minTransactionsToMine = 1,
          started_maxBlockTime = 30000, started_totalMiners = 0\<rparr> \<and>
   autoMining (snd (startAutoMining config0 ledger0))"
  by (simp add: ledger0_def new_Blockchain_def startAutoMining_def config0_def or_default_def
      Let_def)

text \<open>
  Claim C8, amended. \<open>startAutoMining\<close> fails exactly when the scheduler is already
  running, and then leaves the ledger, its configuration included, as it was. Otherwise,
  whether or not miners are registered, it succeeds: it stores the check interval, the
  transaction-count threshold and the maximum inter-block interval of the configuration,
  each replaced by its default (10000, 1, 30000) when missing or 0, sets the timer to the
  check interval and switches to running; the chain, the pending pool, the accounts and
  the miners stay as they were.
\<close>

theorem startAutoMining_outcomes:
  "(autoMining bc \<longrightarrow> startAutoMining config bc = (Inl AlreadyRunning, bc)) \<and>
   (\<not> autoMining bc \<longrightarrow>
      fst (startAutoMining config bc) =
        Inr \<lparr>started_autoMineInterval = or_default (cfg_autoMineInterval config) 10000,
             started_minTransactionsToMine = or_default (cfg_minTransactionsToMine config) 1,
             started_maxBlockTime = or_default (cfg_maxBlockTime config) 30000,
             started_totalMiners = length (miners bc)\<rparr> \<and>
      autoMining (snd (startAutoMining config bc)) \<and>
      autoMineInterval (snd (startAutoMining config bc))
        = Some (or_default (cfg_autoMineInterval config) 10000) \<and>
      minTransactionsToMine (snd (startAutoMining config bc))
        = or_default (cfg_minTransactionsToMine config) 1 \<and>
      maxBlockTime (snd (startAutoMining config bc))
        = or_default (cfg_maxBlockTime config) 30000 \<and>
      miningInterval (snd (startAutoMining config bc))
        = Some (or_default (cfg_autoMineInterval config) 10000) \<and>
      chain (snd (startAutoMining config bc)) = chain bc \<and>
      pendingTransactions (snd (startAutoMining config bc)) = pendingTransactions bc \<and>
      accounts (snd (startAutoMining config bc)) = accounts bc \<and>
      miners (snd (startAutoMining config bc)) = miners bc)"
  by (simp add: startAutoMining_def Let_def)

theorem startAutoMining_outcomes_witness:
  "autoMineInterval (snd (startAutoMining config0 ledger0)) = Some 5000 \<and>
   minTransactionsToMine (snd (startAutoMining config0 ledger0)) = 1 \<and>
   maxBlockTime (snd (startAutoMining config0 ledger0)) = 30000 \<and>
   autoMining (snd (startAutoMining config0 ledger0)) \<and>
   startAutoMining config0 (snd (startAutoMining config0 ledger0))
     = (Inl AlreadyRunning, snd (startAutoMining config0 ledger0))"
proof -
  have stopped: "\<not> autoMining ledger0"
    by (simp add: ledger0_def new_Blockchain_def)
  have d: "or_default (cfg_autoMineInterval config0) 10000 = 5000"
    "or_default (cfg_minTransactionsToMine config0) 1 = 1"
    "or_default (cfg_maxBlockTime config0) 30000 = 30000"
    by (simp_all add: config0_def or_default_def)
  from startAutoMining_outcomes [of ledger0 config0] stopped
  have first: "autoMining (snd (startAutoMining config0 ledger0))"
    "autoMineInterval (snd (startAutoMining config0 ledger0)) = Some 5000"
    "minTransactionsToMine (snd (startAutoMining config0 ledger0)) = 1"
    "maxBlockTime (snd (startAutoMining config0 ledger0)) = 30000"
    by (simp_all add: d)
  from startAutoMining_outcomes [of "snd (startAutoMining config0 ledger0)" config0] first(1)
  have "startAutoMining config0 (snd (startAutoMining config0 ledger0))
          = (Inl AlreadyRunning, snd (startAutoMining config0 ledger0))"
    by blast
  with first show ?thesis
    by blast
qed

section \<open>Hash linkage\<close>

lemma hash_linked_single: "hash_linked [b]"
  by (simp add: hash_linked_def)

lemma hash_linked_snoc:
  assumes "hash_linked blocks" and "blocks \<noteq> []" and "previousHash b = hash (last blocks)"
  shows "hash_linked (blocks @ [b])"
  unfolding hash_linked_def
proof
  fix i
  assume "i \<in> {1 ..< length (blocks @ [b])}"
  then have i: "0 < i" "i < Suc (length blocks)"
    by simp_all
  show "previousHash ((blocks @ [b]) ! i) = hash ((blocks @ [b]) ! (i - 1))"
  proof (cases "i < length blocks")
    case True
    then have "i - 1 < length blocks"
      by (rule less_imp_diff_less)
    moreover from i True assms(1) have "previousHash (blocks ! i) = hash (blocks ! (i - 1))"
      unfolding hash_linked_def by simp
    ultimately show ?thesis
      using True by (simp add: nth_append)
  next
    case False
    with i have "i = length blocks"
      by simp
    with assms(2,3) show ?thesis
      by (simp add: nth_append last_conv_nth)
  qed
qed

lemma chain_adjustDifficulty [simp]: "chain (adjustDifficulty bc) = chain bc"
  by (simp add: adjustDifficulty_def Let_def split: prod.split)

lemma pending_adjustDifficulty [simp]:
  "pendingTransactions (adjustDifficulty bc) = pendingTransactions bc"
  by (simp add: adjustDifficulty_def Let_def split: prod.split)

lemma accounts_adjustDifficulty [simp]: "accounts (adjustDifficulty bc) = accounts bc"
  by (simp add: adjustDifficulty_def Let_def split: prod.split)

lemma miners_adjustDifficulty [simp]: "miners (adjustDifficulty bc) = miners bc"
  by (simp add: adjustDifficulty_def Let_def split: prod.split)

lemma mineBlock_fields:
  assumes "mineBlock cr d m b = Some b'"
  shows "previousHash b' = previousHash b" and "transactions b' = transactions b"
    and "miner b' = Some m" and "reward b' = 10"
proof -
  from mineBlock_Some [OF assms] obtain b1 where
    loop: "mine_loop cr d b = Some b1" and b': "b' = b1\<lparr>miner := Some m, reward := 10\<rparr>"
    by blast
  from mine_loop_result [OF loop] have "mined_from cr d b b1" .
  then show "previousHash b' = previousHash b" and "transactions b' = transactions b"
    and "miner b' = Some m" and "reward b' = 10"
    by (simp_all add: b' mined_from_def)
qed

text \<open>
  What a call of \<open>minePendingTransactions\<close> that returns does to the ledger. When the
  resolved miner is not registered (or the chain is empty) it fails, and the chain, the
  pool, the accounts and the miners are as before. Otherwise it succeeds: it appended one
  block that names the hash of the latest block, holds the pending pool and credits the
  reward of 10 to the resolved miner, and emptied the pool.
\<close>

lemma minePendingTransactions_result:
  assumes "minePendingTransactions cr now startTime endTime a bc = Some res"
  shows "(\<not> accounts_has bc (resolveAddress bc a) \<or> chain bc = []) \<and>
           (\<exists>e. fst res = Inl e) \<and> chain (snd res) = chain bc \<and>
           pendingTransactions (snd res) = pendingTransactions bc \<and>
           accounts (snd res) = accounts bc \<and> miners (snd res) = miners bc
         \<or> accounts_has bc (resolveAddress bc a) \<and> chain bc \<noteq> [] \<and> fst res = Inr () \<and>
           (\<exists>b. chain (snd res) = chain bc @ [b] \<and>
              previousHash b = hash (last (chain bc)) \<and>
              transactions b = pendingTransactions bc \<and>
              miner b = Some (resolveAddress bc a) \<and> reward b = 10) \<and>
           pendingTransactions (snd res) = [] \<and> accounts (snd res) = accounts bc \<and>
           miners (snd res) = miners bc"
proof (cases "accounts_has bc (resolveAddress bc a)")
  case False
  with assms show ?thesis
    by (auto simp: minePendingTransactions_def Let_def)
next
  case reg: True
  show ?thesis
  proof (cases "chain bc = []")
    case True
    with assms reg show ?thesis
      by (auto simp: minePendingTransactions_def Let_def getLatestBlock_def)
  next
    case False
    let ?bc1 = "adjustDifficulty bc"
    let ?blk = "new_Block cr now (pendingTransactions ?bc1) (hash (last (chain ?bc1)))"
    from assms reg False obtain mined where
      m: "mineBlock cr (difficulty ?bc1) (resolveAddress bc a) ?blk = Some mined"
      and res: "res = (Inr (), ?bc1\<lparr>chain := chain ?bc1 @
                  [mined\<lparr>miningTime := Some (endTime - startTime)\<rparr>],
                  pendingTransactions := []\<rparr>)"
      by (auto simp: minePendingTransactions_def Let_def getLatestBlock_def
          split: option.splits)
    from mineBlock_fields [OF m] have
      "previousHash mined = hash (last (chain bc))"
      "transactions mined = pendingTransactions bc"
      "miner mined = Some (resolveAddress bc a)" "reward mined = 10"
      by (simp_all add: new_Block_def)
    with reg False show ?thesis
      by (simp add: res)
  qed
qed

lemma chain_after_mining:
  assumes "minePendingTransactions cr now startTime endTime a bc = Some res"
    and "hash_linked (chain bc)"
  shows "hash_linked (chain (snd res))"
  using minePendingTransactions_result [OF assms(1)] assms(2)
  by (auto intro: hash_linked_snoc)

lemma chain_after_competition:
  assumes "startMiningCompetition cr r now startTime endTime bc = Some res"
    and "hash_linked (chain bc)"
  shows "hash_linked (chain (snd res))"
proof (cases "miners bc = [] \<or> pendingTransactions bc = [] \<or>
    pick_winner (r * sum_list (map hashPower (miners bc))) 0 (miners bc) = None")
  case True
  with assms have "snd res = bc"
    by (auto simp: startMiningCompetition_def Let_def split: if_splits)
  with assms(2) show ?thesis
    by simp
next
  case False
  then obtain i where
    i: "pick_winner (r * sum_list (map hashPower (miners bc))) 0 (miners bc) = Some i"
    by auto
  with False assms(1) obtain res1 where
    m: "minePendingTransactions cr now startTime endTime (miner_address (miners bc ! i)) bc
          = Some res1"
    and c: "chain (snd res) = chain (snd res1)"
    by (auto simp: startMiningCompetition_def Let_def split: option.splits sum.splits)
  from chain_after_mining [OF m assms(2)] c show ?thesis
    by simp
qed

lemma chain_after_check:
  assumes "checkAndStartMining cr nowc r now startTime endTime bc = Some res"
    and "hash_linked (chain bc)"
  shows "hash_linked (chain (snd res))"
proof (cases "startMiningCompetition cr r now startTime endTime bc = Some res")
  case True
  then show ?thesis
    using assms(2) by (rule chain_after_competition)
next
  case False
  with assms show ?thesis
    by (auto simp: checkAndStartMining_def Let_def split: option.splits if_splits)
qed

lemma reachable_linked:
  "reachable cr bc \<Longrightarrow> hash_linked (chain bc)"
proof (induction rule: reachable.induct)
  case (r_new uuid now now')
  show ?case
    by (simp add: new_Blockchain_def hash_linked_single)
next
  case (r_createAccount bc now rnd now' a isAlias)
  then show ?case
    by (simp add: createAccount_def Let_def)
next
  case (r_createTransaction bc tx)
  then show ?case
    by (simp add: createTransaction_def Let_def)
next
  case (r_useFaucet bc now uuid now' now'' a)
  then show ?case
    by (simp add: useFaucet_def Let_def)
next
  case (r_minePendingTransactions bc now startTime endTime a res)
  then show ?case
    by (simp add: chain_after_mining)
next
  case (r_startAutoMining bc config)
  then show ?case
    by (simp add: startAutoMining_def Let_def)
next
  case (r_stopAutoMining bc)
  then show ?case
    by (simp add: stopAutoMining_def)
next
  case (r_addMiner bc now a hp)
  then show ?case
    by (simp add: addMiner_def Let_def)
next
  case (r_removeMiner bc a)
  then show ?case
    by (simp add: removeMiner_def Let_def)
next
  case (r_startMiningCompetition bc r now startTime endTime res)
  then show ?case
    by (simp add: chain_after_competition)
next
  case (r_checkAndStartMining bc nowc r now startTime endTime res)
  then show ?case
    by (simp add: chain_after_check)
qed

text \<open>
  Claim C7. Transaction submission, a faucet claim and mining (where it returns) each
  preserve hash linkage: if every block after the first names the hash of the block
  before it, the same holds after the operation, whether it succeeded or failed. And in
  every ledger that the constructor and the operations (these three, account creation
  and the scheduler's operations) reach, every block after the first names the hash of
  the block before it.
\<close>

theorem hash_linkage_invariant:
  "(hash_linked (chain bc) \<longrightarrow> hash_linked (chain (snd (createTransaction cr tx bc)))) \<and>
   (hash_linked (chain bc)
      \<longrightarrow> hash_linked (chain (snd (useFaucet nowf uuid now' now'' claimant bc)))) \<and>
   (hash_linked (chain bc) \<and>
    minePendingTransactions cr now startTime endTime a bc = Some res
      \<longrightarrow> hash_linked (chain (snd res))) \<and>
   (reachable cr bc \<longrightarrow> hash_linked (chain bc))"
proof (intro conjI impI)
  assume "hash_linked (chain bc)"
  then show "hash_linked (chain (snd (createTransaction cr tx bc)))"
    by (simp add: createTransaction_def Let_def)
next
  assume "hash_linked (chain bc)"
  then show "hash_linked (chain (snd (useFaucet nowf uuid now' now'' claimant bc)))"
    by (simp add: useFaucet_def Let_def)
next
  assume "hash_linked (chain bc) \<and>
    minePendingTransactions cr now startTime endTime a bc = Some res"
  then show "hash_linked (chain (snd res))"
    using chain_after_mining by blast
next
  assume "reachable cr bc"
  then show "hash_linked (chain bc)"
    by (rule reachable_linked)
qed

lemma two_accounts_fields:
  "chain (two_accounts cr) = [createGenesisBlock cr ''id-1'' 1700000000000]"
  "pendingTransactions (two_accounts cr) = []"
  "accounts (two_accounts cr) =
     [\<lparr>address = ''genesis'', acc_alias = None, createdAt = 1700000000050\<rparr>,
      \<lparr>address = ''bob'', acc_alias = None, createdAt = 1700000000060\<rparr>]"
  by (simp_all add: two_accounts_def createAccount_def new_Blockchain_def accounts_has_def
      Let_def)

lemma reachable_two_accounts: "reachable cr (two_accounts cr)"
  unfolding two_accounts_def by (intro r_createAccount r_new)

lemma reachable_after_spend2: "reachable cr (after_spend2 cr)"
  unfolding after_spend2_def after_spend1_def
  by (intro r_createTransaction reachable_two_accounts)

section \<open>A ledger with two accounts and two pending transfers\<close>

lemma resolve_two_accounts:
  "accounts bc = accounts (two_accounts cr) \<Longrightarrow> resolveAddress bc ''genesis'' = ''genesis''"
  "accounts bc = accounts (two_accounts cr) \<Longrightarrow> resolveAddress bc ''bob'' = ''bob''"
  "accounts bc = accounts (two_accounts cr) \<Longrightarrow> accounts_has bc ''genesis''"
  "accounts bc = accounts (two_accounts cr) \<Longrightarrow> accounts_has bc ''bob''"
  by (simp_all add: two_accounts_fields resolveAddress_def findAccount_def accounts_has_def)

lemma balance_two_accounts:
  assumes "accounts bc = accounts (two_accounts cr)" and "chain bc = chain (two_accounts cr)"
  shows "getAccountBalance bc ''genesis'' = 1000000"
  using assms resolve_two_accounts [OF assms(1)] genesis_balance [of cr "''id-1''" 1700000000000]
  by (simp add: getAccountBalance_def two_accounts_fields)

lemma after_spend1_eq:
  "after_spend1 cr =
     (two_accounts cr)\<lparr>pendingTransactions := [signTransaction cr ''genesis'' spend1]\<rparr>"
proof -
  have "spend1\<lparr>tx_from := Some ''genesis'', tx_to := Some ''bob''\<rparr> = spend1"
    by (simp add: spend1_def new_Transaction_def)
  then show ?thesis
    using balance_two_accounts [of "two_accounts cr" cr]
      resolve_two_accounts [of "two_accounts cr" cr]
    by (simp add: after_spend1_def createTransaction_def Let_def absent_def two_accounts_fields
        spend1_def new_Transaction_def)
qed

lemma after_spend2_eq:
  "after_spend2 cr =
     (two_accounts cr)\<lparr>pendingTransactions :=
        [signTransaction cr ''genesis'' spend1, signTransaction cr ''genesis'' spend2]\<rparr>"
proof -
  have "spend2\<lparr>tx_from := Some ''genesis'', tx_to := Some ''bob''\<rparr> = spend2"
    by (simp add: spend2_def new_Transaction_def)
  then show ?thesis
    using balance_two_accounts [of "after_spend1 cr" cr]
      resolve_two_accounts [of "after_spend1 cr" cr]
    by (simp add: after_spend2_def createTransaction_def Let_def absent_def after_spend1_eq
        spend2_def new_Transaction_def)
qed

lemma mined_spends_not_None: "mined_spends \<noteq> None"
  by code_simp

lemma mined_spends_Some:
  "minePendingTransactions toy_crypto 1700000000500 1700000000501 1700000000900 ''bob''
     (after_spend2 toy_crypto) = Some (the mined_spends)"
  using mined_spends_not_None by (simp add: mined_spends_def)

theorem hash_linkage_invariant_witness:
  "hash_linked (chain (after_spend2 toy_crypto)) \<and>
   hash_linked (chain (snd (createTransaction toy_crypto spend1 (after_spend2 toy_crypto)))) \<and>
   hash_linked (chain (snd (useFaucet 1700000000200 ''id-4'' 1700000000201 1700000000202
     ''bob'' (after_spend2 toy_crypto)))) \<and>
   length (chain (snd (the mined_spends))) = 2 \<and>
   hash_linked (chain (snd (the mined_spends))) \<and>
   reachable toy_crypto (snd (the mined_spends))"
proof -
  let ?bc = "after_spend2 toy_crypto"
  note inv = hash_linkage_invariant
    [of _ toy_crypto spend1 1700000000200 "''id-4''" 1700000000201 1700000000202 "''bob''"
      1700000000500 1700000000501 1700000000900 "''bob''" "the mined_spends"]
  have acc: "accounts ?bc = accounts (two_accounts toy_crypto)"
    and ch: "chain ?bc = [createGenesisBlock toy_crypto ''id-1'' 1700000000000]"
    by (simp_all add: after_spend2_eq two_accounts_fields)
  have start: "hash_linked (chain ?bc)"
    by (simp add: ch hash_linked_single)
  have reach: "reachable toy_crypto (snd (the mined_spends))"
    using reachable_after_spend2 mined_spends_Some by (rule r_minePendingTransactions)
  have bob: "resolveAddress ?bc ''bob'' = ''bob''" "accounts_has ?bc ''bob''"
    using resolve_two_accounts [OF acc] by simp_all
  from minePendingTransactions_result [OF mined_spends_Some] bob ch obtain b where
    "chain (snd (the mined_spends)) = chain ?bc @ [b]"
    by auto
  with ch have two: "length (chain (snd (the mined_spends))) = 2"
    by simp
  from inv [of ?bc] start mined_spends_Some have
    "hash_linked (chain (snd (createTransaction toy_crypto spend1 ?bc)))"
    "hash_linked (chain (snd (useFaucet 1700000000200 ''id-4'' 1700000000201 1700000000202
       ''bob'' ?bc)))"
    "hash_linked (chain (snd (the mined_spends)))"
    by blast+
  moreover from inv [of "snd (the mined_spends)"] reach
  have "hash_linked (chain (snd (the mined_spends)))"
    by blast
  ultimately show ?thesis
    using start two reach by blast
qed

text \<open>
  Claim C9. \<open>createTransaction\<close> compares the amount with the balance derived from the
  chain and ignores the pending pool. On the ledger with the accounts \<^verbatim>\<open>genesis\<close> and
  \<^verbatim>\<open>bob\<close>, where \<^verbatim>\<open>genesis\<close> holds 1000000, two transfers of 600000 from \<^verbatim>\<open>genesis\<close>
  to \<^verbatim>\<open>bob\<close> are both accepted (the balance read at the second submission is still
  1000000), and whenever mining the pool with \<^verbatim>\<open>bob\<close> as miner returns, it succeeds and
  the balance of \<^verbatim>\<open>genesis\<close> is -200000.
\<close>

theorem double_spend_negative_balance:
  "getAccountBalance (two_accounts cr) ''genesis'' = 1000000 \<and>
   amount spend1 = 600000 \<and> amount spend2 = 600000 \<and>
   fst (createTransaction cr spend1 (two_accounts cr))
     = Inr (signTransaction cr ''genesis'' spend1) \<and>
   getAccountBalance (after_spend1 cr) ''genesis'' = 1000000 \<and>
   fst (createTransaction cr spend2 (after_spend1 cr))
     = Inr (signTransaction cr ''genesis'' spend2) \<and>
   pendingTransactions (after_spend2 cr)
     = [signTransaction cr ''genesis'' spend1, signTransaction cr ''genesis'' spend2] \<and>
   (\<forall>now startTime endTime res.
      minePendingTransactions cr now startTime endTime ''bob'' (after_spend2 cr) = Some res
      \<longrightarrow> fst res = Inr () \<and> pendingTransactions (snd res) = [] \<and>
          getAccountBalance (snd res) ''genesis'' = - 200000)"
proof (intro conjI allI impI)
  show "getAccountBalance (two_accounts cr) ''genesis'' = 1000000"
    by (rule balance_two_accounts) simp_all
  show "amount spend1 = 600000" "amount spend2 = 600000"
    by (simp_all add: spend1_def spend2_def new_Transaction_def)
  have s1: "spend1\<lparr>tx_from := Some ''genesis'', tx_to := Some ''bob''\<rparr> = spend1"
    and s2: "spend2\<lparr>tx_from := Some ''genesis'', tx_to := Some ''bob''\<rparr> = spend2"
    by (simp_all add: spend1_def spend2_def new_Transaction_def)
  show "fst (createTransaction cr spend1 (two_accounts cr))
          = Inr (signTransaction cr ''genesis'' spend1)"
    using balance_two_accounts [of "two_accounts cr" cr]
      resolve_two_accounts [of "two_accounts cr" cr] s1
    by (simp add: createTransaction_def Let_def absent_def spend1_def new_Transaction_def)
  show b1: "getAccountBalance (after_spend1 cr) ''genesis'' = 1000000"
    by (rule balance_two_accounts) (simp_all add: after_spend1_eq)
  show "fst (createTransaction cr spend2 (after_spend1 cr))
          = Inr (signTransaction cr ''genesis'' spend2)"
    using b1 resolve_two_accounts [of "after_spend1 cr" cr] s2
    by (simp add: createTransaction_def Let_def absent_def spend2_def new_Transaction_def
        after_spend1_eq)
  show "pendingTransactions (after_spend2 cr)
          = [signTransaction cr ''genesis'' spend1, signTransaction cr ''genesis'' spend2]"
    by (simp add: after_spend2_eq)
next
  fix now startTime endTime res
  assume run: "minePendingTransactions cr now startTime endTime ''bob'' (after_spend2 cr)
                 = Some res"
  let ?bc = "after_spend2 cr"
  have acc: "accounts ?bc = accounts (two_accounts cr)"
    and ch: "chain ?bc = [createGenesisBlock cr ''id-1'' 1700000000000]"
    by (simp_all add: after_spend2_eq two_accounts_fields)
  have bob: "resolveAddress ?bc ''bob'' = ''bob''" "accounts_has ?bc ''bob''"
    using resolve_two_accounts [OF acc] by simp_all
  from minePendingTransactions_result [OF run] bob ch obtain b where
    ok: "fst res = Inr ()" and pool: "pendingTransactions (snd res) = []"
    and acc': "accounts (snd res) = accounts ?bc"
    and ch': "chain (snd res) = chain ?bc @ [b]"
    and txs: "transactions b = pendingTransactions ?bc" and m: "miner b = Some ''bob''"
    by auto
  have "resolveAddress (snd res) ''genesis'' = ''genesis''" "accounts_has (snd res) ''genesis''"
    using resolve_two_accounts [of "snd res" cr] acc acc' by simp_all
  then have "getAccountBalance (snd res) ''genesis''
      = balance_after_block ''genesis'' b
          (fold (balance_after_block ''genesis'') [createGenesisBlock cr ''id-1'' 1700000000000] 0)"
    by (simp add: getAccountBalance_def ch' ch Let_def)
  also have "\<dots> = balance_after_block ''genesis'' b 1000000"
    by (simp only: genesis_balance)
  also have "\<dots> = - 200000"
    by (simp add: balance_after_block_def balance_after_transaction_def txs m
        after_spend2_eq signTransaction_def spend1_def spend2_def new_Transaction_def Let_def)
  finally show "fst res = Inr ()" "pendingTransactions (snd res) = []"
    "getAccountBalance (snd res) ''genesis'' = - 200000"
    using ok pool by simp_all
qed

theorem double_spend_negative_balance_witness:
  "mined_spends \<noteq> None \<and> fst (the mined_spends) = Inr () \<and>
   pendingTransactions (snd (the mined_spends)) = [] \<and>
   getAccountBalance (snd (the mined_spends)) ''genesis'' = - 200000"
proof -
  from double_spend_negative_balance [of toy_crypto] mined_spends_Some mined_spends_not_None
  show ?thesis
    by blast
qed

end
